theory Spec2Isabelle
  imports Main
begin

section \<open>Python values and exceptions\<close>

text \<open>
  The dispatch layer of \<^verbatim>\<open>numba/hsa/compiler.py\<close> is embedded function by function.
  Python integers are \<^typ>\<open>int\<close>, tuples and lists of sizes are \<^typ>\<open>int list\<close>,
  \<^verbatim>\<open>None\<close> is \<^const>\<open>None\<close>, and every exception is a value of the type
  \<open>error\<close> below.
\<close>

text \<open>
  A Python float is a finite dyadic number (mantissa and binary exponent), an infinity
  (with its sign) or a NaN.
\<close>

datatype pyfloat = Finite int int | Infinity bool | NaN

text \<open>
  What the marshaller reads from a numpy array: \<^verbatim>\<open>val.size\<close>,
  \<^verbatim>\<open>val.dtype.itemsize\<close>, \<^verbatim>\<open>val.ctypes.data\<close>, \<^verbatim>\<open>val.ndim\<close>,
  \<^verbatim>\<open>val.shape\<close> and \<^verbatim>\<open>val.strides\<close>.
\<close>

record ndarray =
  arr_size :: int
  arr_itemsize :: int
  arr_data :: int
  arr_ndim :: nat
  arr_shape :: "int list"
  arr_strides :: "int list"

datatype pyval =
    PyInt int
  | PyBool bool
  | PyFloat pyfloat
  | PyComplex pyfloat pyfloat
  | PyArray ndarray
  | PyObject string

text \<open>
  Modelled from the spec: the type descriptors of \<^verbatim>\<open>numba.types\<close>, which the source
  imports and which are not part of the file. The spec gives the tagged variant
  Array(elementType, rank), SignedInteger(width), UnsignedInteger(width), Float32,
  Float64, Boolean, Complex64, Complex128; \<open>OtherType\<close> stands for every other
  descriptor (a nested container type, say), identified by its name.
  \<^verbatim>\<open>isinstance(ty, types.Integer)\<close> holds of the two integer variants.
\<close>

datatype numba_type =
    Array numba_type nat
  | SignedInteger nat
  | UnsignedInteger nat
  | Float32
  | Float64
  | Boolean
  | Complex64
  | Complex128
  | OtherType string

datatype error =
    NotImplementedError numba_type pyval
  | AssertionError string
  | ZeroDivisionError
  | IndexError
  | TypeError
  | AttributeError
  | OverflowError
  | ValueError
  | DriverError nat
  | CompilerError nat

section \<open>Configuration model\<close>

text \<open>
  \<^verbatim>\<open>
  def _ensure_list(val):
      if not isinstance(val, (tuple, list)):
          return [val]
      else:
          return list(val)
  \<close>
  A size argument is a scalar or a tuple/list of integers. In both cases the result is
  a new list: the caller's sequence is never the one that is extended later.
\<close>

datatype size_arg = Scalar int | Sequence "int list"

fun ensure_list :: "size_arg \<Rightarrow> int list" where
  "ensure_list (Scalar val) = [val]"
| "ensure_list (Sequence val) = val"

text \<open>
  \<^verbatim>\<open>
  def _ensure_size_or_append(val, size):
      n = len(val)
      for _ in range(n, size):
          val.append(1)
  \<close>
  The loop runs \<open>size - n\<close> times (not at all when \<open>size \<le> n\<close>); the mutated list is
  returned.
\<close>

fun append_ones :: "nat \<Rightarrow> int list \<Rightarrow> int list" where
  "append_ones 0 val = val"
| "append_ones (Suc k) val = append_ones k (val @ [1])"

definition ensure_size_or_append :: "int list \<Rightarrow> nat \<Rightarrow> int list" where
  "ensure_size_or_append val sz = append_ones (sz - length val) val"

text \<open>
  \<^verbatim>\<open>
  class HSAKernelBase(object):
      def __init__(self):
          self.global_size = (1,)
          self.local_size = (1,)
          self.stream = None
  \<close>
  Kernel objects live in an object table (a list indexed by address), because
  \<^verbatim>\<open>configure\<close> clones its receiver and then assigns attributes of the clone. The
  record is extended by the two subclasses below; the functions of the base class work on
  any extension.
\<close>

type_synonym addr = nat

type_synonym stream = nat

record hsa_kernel_base =
  global_size :: "int list"
  local_size :: "int list option"
  stream :: "stream option"

text \<open>
  \<^verbatim>\<open>
  def copy(self):
      return copy.copy(self)
  \<close>
  A shallow copy: a new object, at a new address, with the attribute values of the
  receiver (references are copied, not the objects they point to).
\<close>

definition copy :: "'o list \<Rightarrow> addr \<Rightarrow> 'o list \<times> addr" where
  "copy h self = (h @ [h ! self], length h)"

text \<open>
  \<^verbatim>\<open>
  def configure(self, global_size, local_size=None, stream=None):
      global_size = _ensure_list(global_size)
      if local_size is not None:
          local_size = _ensure_list(local_size)
          size = max(len(global_size), len(local_size))
          _ensure_size_or_append(global_size, size)
          _ensure_size_or_append(local_size, size)
      clone = self.copy()
      clone.global_size = tuple(global_size)
      clone.local_size = tuple(local_size) if local_size else None
      clone.stream = stream
      return clone
  \<close>
  \<open>pad_sizes\<close> is the first half (the two local lists after the \<^verbatim>\<open>if\<close>);
  \<^verbatim>\<open>tuple(local_size) if local_size else None\<close> tests the truth value of the list, so
  an empty list is stored as \<^verbatim>\<open>None\<close>.
\<close>

definition pad_sizes :: "size_arg \<Rightarrow> size_arg option \<Rightarrow> int list \<times> int list option" where
  "pad_sizes gsize lsize =
     (let gs = ensure_list gsize in
      case lsize of
        None \<Rightarrow> (gs, None)
      | Some l \<Rightarrow>
          (let ls = ensure_list l;
               sz = max (length gs) (length ls)
           in (ensure_size_or_append gs sz, Some (ensure_size_or_append ls sz))))"

definition truthy_or_None :: "int list option \<Rightarrow> int list option" where
  "truthy_or_None lsize =
     (case lsize of
        None \<Rightarrow> None
      | Some ls \<Rightarrow> if ls = [] then None else Some ls)"

definition configure ::
  "('a hsa_kernel_base_scheme) list \<Rightarrow> addr \<Rightarrow> size_arg \<Rightarrow> size_arg option \<Rightarrow> stream option
     \<Rightarrow> ('a hsa_kernel_base_scheme) list \<times> addr" where
  "configure h self gsize lsize strm =
     (let (gs, ls) = pad_sizes gsize lsize;
          (h1, clone) = copy h self;
          h2 = h1[clone := (h1 ! clone)\<lparr>global_size := gs\<rparr>];
          h3 = h2[clone := (h2 ! clone)\<lparr>local_size := truthy_or_None ls\<rparr>];
          h4 = h3[clone := (h3 ! clone)\<lparr>stream := strm\<rparr>]
      in (h4, clone))"

text \<open>
  \<^verbatim>\<open>
  def __getitem__(self, args):
      griddim = _ensure_list(args[0])
      blockdim = _ensure_list(args[1])
      size = max(len(griddim), len(blockdim))
      _ensure_size_or_append(griddim, size)
      _ensure_size_or_append(blockdim, size)
      gs = [g * l for g, l in zip(griddim, blockdim)]
      return self.configure(gs, blockdim, *args[2:])
  \<close>
  The index tuple is given as its first two components and the rest \<open>args[2:]\<close>. The
  rest is passed on positionally: none leaves the stream at its default \<^verbatim>\<open>None\<close>,
  one is the stream, more are too many arguments for \<^verbatim>\<open>configure\<close> (a
  \<^verbatim>\<open>TypeError\<close>). An index tuple with fewer than two components is not a value of
  this input type.
\<close>

definition getitem ::
  "('a hsa_kernel_base_scheme) list \<Rightarrow> addr \<Rightarrow> size_arg \<Rightarrow> size_arg \<Rightarrow> stream option list
     \<Rightarrow> error + ('a hsa_kernel_base_scheme) list \<times> addr" where
  "getitem h self arg0 arg1 rest =
     (let griddim = ensure_list arg0;
          blockdim = ensure_list arg1;
          sz = max (length griddim) (length blockdim);
          griddim = ensure_size_or_append griddim sz;
          blockdim = ensure_size_or_append blockdim sz;
          gs = map (\<lambda>(g, l). g * l) (zip griddim blockdim)
      in case rest of
           [] \<Rightarrow> Inr (configure h self (Sequence gs) (Some (Sequence blockdim)) None)
         | [strm] \<Rightarrow> Inr (configure h self (Sequence gs) (Some (Sequence blockdim)) strm)
         | _ \<Rightarrow> Inl TypeError)"

text \<open>
  A sequence of \<^verbatim>\<open>configure\<close> calls, each on any receiver: the object table after
  the last call, and the clones returned, first call first.
\<close>

type_synonym configure_call = "addr \<times> size_arg \<times> size_arg option \<times> stream option"

fun configure_calls ::
  "('a hsa_kernel_base_scheme) list \<Rightarrow> configure_call list
     \<Rightarrow> ('a hsa_kernel_base_scheme) list \<times> addr list" where
  "configure_calls h [] = (h, [])"
| "configure_calls h ((self, gs, ls, strm) # calls) =
     (let (h1, clone) = configure h self gs ls strm;
          (h2, clones) = configure_calls h1 calls
      in (h2, clone # clones))"

text \<open>
  The object \<^verbatim>\<open>HSAKernelBase.__init__\<close> leaves behind.
\<close>

definition HSAKernelBase_init :: hsa_kernel_base where
  "HSAKernelBase_init = \<lparr>global_size = [1], local_size = Some [1], stream = None\<rparr>"

text \<open>
  The words of the specification, to compare the code with: a sequence right-padded with
  1 to rank \<open>n\<close>, the larger of two ranks, and the element-wise product of the padded grid
  and block dimensions.
\<close>

definition pad_right :: "int list \<Rightarrow> nat \<Rightarrow> int list" where
  "pad_right xs n = xs @ replicate (n - length xs) 1"

definition common_rank :: "size_arg \<Rightarrow> size_arg \<Rightarrow> nat" where
  "common_rank a b = max (length (ensure_list a)) (length (ensure_list b))"

definition grid_times_block :: "size_arg \<Rightarrow> size_arg \<Rightarrow> int list" where
  "grid_times_block griddim blockdim =
     (let n = common_rank griddim blockdim
      in map (\<lambda>i. pad_right (ensure_list griddim) n ! i * pad_right (ensure_list blockdim) n ! i)
           [0..<n])"

section \<open>Padding\<close>

text \<open>
  \<^verbatim>\<open>
  def _calc_padding_for_alignment(align, base):
      rmdr = int(base) % align
      if rmdr == 0:
          return 0
      else:
          return align - rmdr
  \<close>
  Python's \<^verbatim>\<open>%\<close> on integers is the floored remainder, which is \<open>mod\<close> on
  \<^typ>\<open>int\<close>; a zero divisor raises.
\<close>

definition calc_padding_for_alignment :: "int \<Rightarrow> int \<Rightarrow> error + int" where
  "calc_padding_for_alignment align base =
     (if align = 0 then Inl ZeroDivisionError
      else let rmdr = base mod align
           in if rmdr = 0 then Inr 0 else Inr (align - rmdr))"

section \<open>Argument marshaller\<close>

text \<open>
  A cell is a ctypes scalar: its ctypes type and the Python value handed to the
  constructor. \<open>c_int w\<close> and \<open>c_uint w\<close> are \<^verbatim>\<open>c_int8\<close> ... \<^verbatim>\<open>c_uint64\<close>. The
  conversion of the value to its machine representation (wrap-around of integers,
  rounding of floats, values too large for the type) is not part of the model; the kind
  of the value is: a ctypes integer takes a Python \<^verbatim>\<open>int\<close> or \<^verbatim>\<open>bool\<close>, a ctypes
  float also a \<^verbatim>\<open>float\<close>, anything else raises \<^verbatim>\<open>TypeError\<close>.
\<close>

datatype ctype = c_void_p | c_ssize_t | c_int nat | c_uint nat | c_float | c_double

datatype cell = Cell ctype pyval

fun c_integer :: "ctype \<Rightarrow> pyval \<Rightarrow> error + cell" where
  "c_integer ct (PyInt v) = Inr (Cell ct (PyInt v))"
| "c_integer ct (PyBool b) = Inr (Cell ct (PyBool b))"
| "c_integer ct _ = Inl TypeError"

fun c_floating :: "ctype \<Rightarrow> pyval \<Rightarrow> error + cell" where
  "c_floating ct (PyInt v) = Inr (Cell ct (PyInt v))"
| "c_floating ct (PyBool b) = Inr (Cell ct (PyBool b))"
| "c_floating ct (PyFloat f) = Inr (Cell ct (PyFloat f))"
| "c_floating ct _ = Inl TypeError"

text \<open>
  \<^verbatim>\<open>ctypes.sizeof\<close> of a cell, in bytes; \<open>psz\<close> is
  \<^verbatim>\<open>ctypes.sizeof(ctypes.c_void_p)\<close>, the pointer width of the platform, which is
  also the width of \<^verbatim>\<open>c_ssize_t\<close>.
\<close>

fun sizeof_ctype :: "int \<Rightarrow> ctype \<Rightarrow> int" where
  "sizeof_ctype psz c_void_p = psz"
| "sizeof_ctype psz c_ssize_t = psz"
| "sizeof_ctype psz (c_int w) = int (w div 8)"
| "sizeof_ctype psz (c_uint w) = int (w div 8)"
| "sizeof_ctype psz c_float = 4"
| "sizeof_ctype psz c_double = 8"

fun sizeof :: "int \<Rightarrow> cell \<Rightarrow> int" where
  "sizeof psz (Cell ct v) = sizeof_ctype psz ct"

text \<open>
  \<^verbatim>\<open>int(val)\<close>: identity on integers, 0 or 1 for a bool, truncation towards zero for a
  finite float, \<^verbatim>\<open>OverflowError\<close> for an infinity and \<^verbatim>\<open>ValueError\<close> for a NaN. A
  complex number, an array (the model has no element values; numpy converts arrays of one
  element only) and any other object raise \<^verbatim>\<open>TypeError\<close>.
\<close>

fun py_int :: "pyval \<Rightarrow> error + int" where
  "py_int (PyInt v) = Inr v"
| "py_int (PyBool b) = Inr (if b then 1 else 0)"
| "py_int (PyFloat (Finite m e)) =
     Inr (if 0 \<le> e then m * 2 ^ nat e else sgn m * (\<bar>m\<bar> div 2 ^ nat (- e)))"
| "py_int (PyFloat (Infinity s)) = Inl OverflowError"
| "py_int (PyFloat NaN) = Inl ValueError"
| "py_int _ = Inl TypeError"

text \<open>
  \<^verbatim>\<open>val.real\<close> and \<^verbatim>\<open>val.imag\<close>. Every Python number has them; an array has them
  too (they are arrays again); another object has not.
\<close>

fun attr_real :: "pyval \<Rightarrow> error + pyval" where
  "attr_real (PyInt v) = Inr (PyInt v)"
| "attr_real (PyBool b) = Inr (PyInt (if b then 1 else 0))"
| "attr_real (PyFloat f) = Inr (PyFloat f)"
| "attr_real (PyComplex re im) = Inr (PyFloat re)"
| "attr_real (PyArray a) = Inr (PyArray a)"
| "attr_real (PyObject n) = Inl AttributeError"

fun attr_imag :: "pyval \<Rightarrow> error + pyval" where
  "attr_imag (PyInt v) = Inr (PyInt 0)"
| "attr_imag (PyBool b) = Inr (PyInt 0)"
| "attr_imag (PyFloat f) = Inr (PyFloat (Finite 0 0))"
| "attr_imag (PyComplex re im) = Inr (PyFloat im)"
| "attr_imag (PyArray a) = Inr (PyArray a)"
| "attr_imag (PyObject n) = Inl AttributeError"

text \<open>
  \<^verbatim>\<open>
  for ax in range(val.ndim):
      kernelargs.append(c_intp(val.shape[ax]))
  \<close>
  The cells one such loop appends; indexing past the end of the tuple raises
  \<^verbatim>\<open>IndexError\<close>.
\<close>

definition axis_cells :: "nat \<Rightarrow> int list \<Rightarrow> error + cell list" where
  "axis_cells n xs =
     (if n \<le> length xs then Inr (map (\<lambda>ax. Cell c_ssize_t (PyInt (xs ! ax))) [0..<n])
      else Inl IndexError)"

text \<open>
  \<^verbatim>\<open>
  def _unpack_argument(ty, val, kernelargs):
      if isinstance(ty, types.Array):
          c_intp = ctypes.c_ssize_t
          parent = ctypes.c_void_p(0)
          nitems = c_intp(val.size)
          itemsize = c_intp(val.dtype.itemsize)
          data = ctypes.c_void_p(val.ctypes.data)
          kernelargs.append(parent)
          kernelargs.append(nitems)
          kernelargs.append(itemsize)
          kernelargs.append(data)
          for ax in range(val.ndim):
              kernelargs.append(c_intp(val.shape[ax]))
          for ax in range(val.ndim):
              kernelargs.append(c_intp(val.strides[ax]))
      elif isinstance(ty, types.Integer):
          cval = getattr(ctypes, "c_%s" % ty)(val)
          kernelargs.append(cval)
      elif ty == types.float64:
          cval = ctypes.c_double(val)
          kernelargs.append(cval)
      elif ty == types.float32:
          cval = ctypes.c_float(val)
          kernelargs.append(cval)
      elif ty == types.boolean:
          cval = ctypes.c_uint8(int(val))
          kernelargs.append(cval)
      elif ty == types.complex64:
          kernelargs.append(ctypes.c_float(val.real))
          kernelargs.append(ctypes.c_float(val.imag))
      elif ty == types.complex128:
          kernelargs.append(ctypes.c_double(val.real))
          kernelargs.append(ctypes.c_double(val.imag))
      else:
          raise NotImplementedError(ty, val)
  \<close>
  The function returns the extended list. In the array branch the rank is read from the
  value (\<^verbatim>\<open>val.ndim\<close>), not from the descriptor; a value without the array attributes
  raises \<^verbatim>\<open>AttributeError\<close>. ctypes has integer types of 8, 16, 32 and 64 bits; the
  lookup of any other name raises \<^verbatim>\<open>AttributeError\<close>.
\<close>

definition unpack_array :: "ndarray \<Rightarrow> cell list \<Rightarrow> error + cell list" where
  "unpack_array a kernelargs =
     (let parent = Cell c_void_p (PyInt 0);
          nitems = Cell c_ssize_t (PyInt (arr_size a));
          itemsize = Cell c_ssize_t (PyInt (arr_itemsize a));
          data = Cell c_void_p (PyInt (arr_data a))
      in case axis_cells (arr_ndim a) (arr_shape a) of
           Inl e \<Rightarrow> Inl e
         | Inr shape_cells \<Rightarrow>
             (case axis_cells (arr_ndim a) (arr_strides a) of
                Inl e \<Rightarrow> Inl e
              | Inr stride_cells \<Rightarrow>
                  Inr (kernelargs @ [parent, nitems, itemsize, data] @ shape_cells
                         @ stride_cells)))"

definition append_cell :: "cell list \<Rightarrow> error + cell \<Rightarrow> error + cell list" where
  "append_cell kernelargs r = (case r of Inl e \<Rightarrow> Inl e | Inr c \<Rightarrow> Inr (kernelargs @ [c]))"

definition unpack_complex :: "ctype \<Rightarrow> pyval \<Rightarrow> cell list \<Rightarrow> error + cell list" where
  "unpack_complex ct val kernelargs =
     (case attr_real val of
        Inl e \<Rightarrow> Inl e
      | Inr re \<Rightarrow>
          (case append_cell kernelargs (c_floating ct re) of
             Inl e \<Rightarrow> Inl e
           | Inr kernelargs1 \<Rightarrow>
               (case attr_imag val of
                  Inl e \<Rightarrow> Inl e
                | Inr im \<Rightarrow> append_cell kernelargs1 (c_floating ct im))))"

definition ctypes_has_width :: "nat \<Rightarrow> bool" where
  "ctypes_has_width w = (w = 8 \<or> w = 16 \<or> w = 32 \<or> w = 64)"

fun unpack_argument :: "numba_type \<Rightarrow> pyval \<Rightarrow> cell list \<Rightarrow> error + cell list" where
  "unpack_argument (Array et r) val kernelargs =
     (case val of PyArray a \<Rightarrow> unpack_array a kernelargs | _ \<Rightarrow> Inl AttributeError)"
| "unpack_argument (SignedInteger w) val kernelargs =
     (if ctypes_has_width w then append_cell kernelargs (c_integer (c_int w) val)
      else Inl AttributeError)"
| "unpack_argument (UnsignedInteger w) val kernelargs =
     (if ctypes_has_width w then append_cell kernelargs (c_integer (c_uint w) val)
      else Inl AttributeError)"
| "unpack_argument Float64 val kernelargs = append_cell kernelargs (c_floating c_double val)"
| "unpack_argument Float32 val kernelargs = append_cell kernelargs (c_floating c_float val)"
| "unpack_argument Boolean val kernelargs =
     (case py_int val of
        Inl e \<Rightarrow> Inl e
      | Inr i \<Rightarrow> append_cell kernelargs (c_integer (c_uint 8) (PyInt i)))"
| "unpack_argument Complex64 val kernelargs = unpack_complex c_float val kernelargs"
| "unpack_argument Complex128 val kernelargs = unpack_complex c_double val kernelargs"
| "unpack_argument (OtherType n) val kernelargs = Inl (NotImplementedError (OtherType n) val)"

text \<open>
  \<^verbatim>\<open>
  expanded_values = []
  for ty, val in zip(self.argument_types, args):
      _unpack_argument(ty, val, expanded_values)
  \<close>
  \<^verbatim>\<open>zip\<close> stops at the shorter of the two sequences.
\<close>

fun unpack_arguments :: "(numba_type \<times> pyval) list \<Rightarrow> cell list \<Rightarrow> error + cell list" where
  "unpack_arguments [] expanded_values = Inr expanded_values"
| "unpack_arguments ((ty, val) # rest) expanded_values =
     (case unpack_argument ty val expanded_values of
        Inl e \<Rightarrow> Inl e
      | Inr expanded_values1 \<Rightarrow> unpack_arguments rest expanded_values1)"

section \<open>The world: objects, collaborators and their trace\<close>

text \<open>
  Modelled from the spec: the values of the driver (\<^verbatim>\<open>hsadrv\<close>), which the source
  imports and which are not part of the file. A device context has an agent, an agent
  has memory regions, each with a flag for kernel arguments; a code descriptor reports
  the size of the kernel-argument segment. Modules and programs are opaque handles.
\<close>

record region =
  region_id :: nat
  supports_kernargs :: bool

record agent =
  agent_id :: nat
  regions :: "region list"

record device_context =
  ctx_id :: nat
  ctx_agent :: agent

record code_descriptor =
  code_id :: nat
  kernarg_segment_byte_size :: nat

text \<open>
  \<^verbatim>\<open>
  _CacheEntry = namedtuple("_CachedEntry", ['code_desc', 'program', 'kernarg_region'])

  class _CachedProgram(object):
      def __init__(self, entry_name, binary):
          self._entry_name = entry_name
          self._binary = binary
          # key: hsa context
          self._cache = {}
  \<close>
  The dictionary is an association list, read with \<^const>\<open>map_of\<close>.
\<close>

record cache_entry =
  code_desc :: code_descriptor
  program :: nat
  kernarg_region :: region

record cached_program =
  cp_entry_name :: string
  cp_binary :: string
  cp_cache :: "(device_context \<times> cache_entry) list"

text \<open>
  \<^verbatim>\<open>
  class HSAKernel(HSAKernelBase):
      INJECTED_NARG = 6

      def __init__(self, llvm_module, name, argtypes):
          super(HSAKernel, self).__init__()
          self._llvm_module = llvm_module
          self.assembly, self.binary = self._finalize()
          self.entry_name = name
          self.argument_types = tuple(argtypes)
          self._argloc = []
          self._injectedargsize = self.INJECTED_NARG * ctypes.sizeof(ctypes.c_void_p)
          self._cacheprog = _CachedProgram(entry_name=self.entry_name, binary=self.binary)

  class AutoJitHSAKernel(HSAKernelBase):
      def __init__(self, func):
          super(AutoJitHSAKernel, self).__init__()
          self.py_func = func
          self.definitions = {}
  \<close>
  \<open>cacheprog\<close> and \<open>definitions\<close> are references: the address of the cache object and
  of the dictionary, which a shallow copy of the kernel shares with the original.
\<close>

record hsa_kernel = hsa_kernel_base +
  llvm_module :: nat
  assembly :: string
  binary :: string
  entry_name :: string
  argument_types :: "numba_type list"
  argloc :: "nat list"
  injectedargsize :: int
  cacheprog :: addr

record autojit_hsa_kernel = hsa_kernel_base +
  py_func :: nat
  definitions :: addr

definition INJECTED_NARG :: nat where
  "INJECTED_NARG = 6"

text \<open>
  The argument buffer \<^verbatim>\<open>kernargs\<close>: where the region put it, its size in bytes
  (\<^verbatim>\<open>ctypes.sizeof(kernargs)\<close>) and the cells written into it, each with its byte
  offset, latest first. ctypes does not check a write through a cast pointer against the
  size of the buffer, so a write is recorded wherever it lands.
\<close>

record kernarg_buffer =
  buf_addr :: nat
  buf_size :: nat
  buf_writes :: "(int \<times> cell) list"

text \<open>
  Every call to a collaborator is recorded. The six steps of finalization carry the
  address of the cache object that took them and the context they were taken for.
\<close>

datatype step = LoadModule | FindSymbol | CreateProgram | AddModule | Finalize | SelectRegion

datatype event =
    EvFinalization step addr device_context
  | EvAllocate region nat
  | EvDispatch device_context code_descriptor kernarg_buffer "int list option" "int list"
  | EvFree region nat
  | EvFinalizeHLC nat
  | EvCompile nat "numba_type list"

text \<open>
  Modelled from the spec: the collaborators, which the source calls and which are not part
  of the file: the driver (\<^verbatim>\<open>BrigModule.from_memory\<close>, \<^verbatim>\<open>find_symbol_offset\<close>,
  \<^verbatim>\<open>create_program\<close>, \<^verbatim>\<open>add_module\<close>, \<^verbatim>\<open>finalize\<close>, the \<^verbatim>\<open>allocate\<close> and
  \<^verbatim>\<open>free\<close> of a region, the \<^verbatim>\<open>dispatch\<close> of a context's default queue), the type
  resolver, the compiler pipeline and the \<^verbatim>\<open>hlc\<close> finalizer. Each is a parameter: a
  function on a state \<open>'d\<close> of its own that may fail (driver-layer faults are propagated
  unchanged) and may answer differently the next time. \<open>lower_kernel\<close> stands for what
  \<^verbatim>\<open>compile_kernel\<close> obtains before it builds the kernel object (\<^verbatim>\<open>compile_hsa\<close>,
  \<^verbatim>\<open>get_function\<close>, \<^verbatim>\<open>prepare_hsa_kernel\<close>): the LLVM module, the kernel's name and
  the argument types of the signature. \<open>sizeof_void_p\<close> is
  \<^verbatim>\<open>ctypes.sizeof(ctypes.c_void_p)\<close>. The type resolver is deterministic.
\<close>

record lowered =
  low_llvm_module :: nat
  low_kernel_name :: string
  low_signature_args :: "numba_type list"

record 'd collaborators =
  sizeof_void_p :: int
  from_memory :: "string \<Rightarrow> 'd \<Rightarrow> (error + nat) \<times> 'd"
  find_symbol_offset :: "nat \<Rightarrow> string \<Rightarrow> 'd \<Rightarrow> (error + int) \<times> 'd"
  create_program :: "agent list \<Rightarrow> 'd \<Rightarrow> (error + nat) \<times> 'd"
  add_module :: "nat \<Rightarrow> nat \<Rightarrow> 'd \<Rightarrow> (error + nat) \<times> 'd"
  finalize :: "nat \<Rightarrow> agent \<Rightarrow> nat \<Rightarrow> int \<Rightarrow> 'd \<Rightarrow> (error + code_descriptor) \<times> 'd"
  allocate :: "region \<Rightarrow> nat \<Rightarrow> 'd \<Rightarrow> (error + nat) \<times> 'd"
  free :: "region \<Rightarrow> nat \<Rightarrow> 'd \<Rightarrow> (error + unit) \<times> 'd"
  dispatch ::
    "device_context \<Rightarrow> code_descriptor \<Rightarrow> kernarg_buffer \<Rightarrow> int list option \<Rightarrow> int list
       \<Rightarrow> 'd \<Rightarrow> (error + unit) \<times> 'd"
  resolve_argument_type :: "pyval \<Rightarrow> error + numba_type"
  lower_kernel :: "nat \<Rightarrow> numba_type list \<Rightarrow> 'd \<Rightarrow> (error + lowered) \<times> 'd"
  hlc_finalize :: "nat \<Rightarrow> 'd \<Rightarrow> (error + string \<times> string) \<times> 'd"

text \<open>
  The world: the object tables (kernel objects, auto-specializing wrappers, cache
  objects, the dictionaries of the wrappers), the context that
  \<^verbatim>\<open>devices.get_context()\<close> returns, the state of the collaborators and the trace of
  the calls made to them. An address is an index into its table; a new object is appended,
  so its address is new.
\<close>

record 'd world =
  kernels :: "hsa_kernel list"
  autojits :: "autojit_hsa_kernel list"
  cacheprogs :: "cached_program list"
  dicts :: "(numba_type list \<times> addr) list list"
  current_context :: device_context
  collab_state :: 'd
  trace :: "event list"

text \<open>
  An action runs in a world and ends with a value or with an exception; the world it
  leaves is kept in both cases.
\<close>

type_synonym ('d, 'a) action = "'d world \<Rightarrow> (error + 'a) \<times> 'd world"

definition ret :: "'a \<Rightarrow> ('d, 'a) action" where
  "ret x = (\<lambda>w. (Inr x, w))"

definition andthen :: "('d, 'a) action \<Rightarrow> ('a \<Rightarrow> ('d, 'b) action) \<Rightarrow> ('d, 'b) action" where
  "andthen m f = (\<lambda>w. case m w of (Inl e, w1) \<Rightarrow> (Inl e, w1) | (Inr x, w1) \<Rightarrow> f x w1)"

definition external :: "event \<Rightarrow> ('d \<Rightarrow> (error + 'a) \<times> 'd) \<Rightarrow> ('d, 'a) action" where
  "external ev f =
     (\<lambda>w. case f (collab_state w) of
             (r, d) \<Rightarrow> (r, w\<lparr>collab_state := d, trace := trace w @ [ev]\<rparr>))"

section \<open>Finalized-program cache\<close>

text \<open>
  \<^verbatim>\<open>
  kernarg_region = [r for r in agent.regions if r.supports_kernargs][0]
  \<close>
\<close>

definition select_kernarg_region :: "agent \<Rightarrow> error + region" where
  "select_kernarg_region ag =
     (case filter supports_kernargs (regions ag) of
        [] \<Rightarrow> Inl IndexError
      | r # _ \<Rightarrow> Inr r)"

text \<open>
  \<^verbatim>\<open>self._cache[ctx] = result\<close>: the key is replaced if it is there and added if not.
\<close>

fun dict_store :: "'k \<Rightarrow> 'v \<Rightarrow> ('k \<times> 'v) list \<Rightarrow> ('k \<times> 'v) list" where
  "dict_store k v [] = [(k, v)]"
| "dict_store k v ((k', v') # kvs) =
     (if k' = k then (k, v) # kvs else (k', v') # dict_store k v kvs)"

definition cache_store :: "addr \<Rightarrow> device_context \<Rightarrow> cache_entry \<Rightarrow> ('d, unit) action" where
  "cache_store self ctx result =
     (\<lambda>w. (Inr (),
            w\<lparr>cacheprogs := (cacheprogs w)
                 [self := (cacheprogs w ! self)
                    \<lparr>cp_cache := dict_store ctx result (cp_cache (cacheprogs w ! self))\<rparr>]\<rparr>))"

text \<open>
  \<^verbatim>\<open>
  def get(self):
      ctx = devices.get_context()
      result = self._cache.get(ctx)
      # The program has not been finalized for this device
      if result is None:
          # Finalize
          symbol = '&{0}'.format(self._entry_name)
          brig_module = driver.BrigModule.from_memory(self._binary)
          symbol_offset = brig_module.find_symbol_offset(symbol)
          agent = ctx.agent
          program = driver.hsa.create_program([agent])
          module = program.add_module(brig_module)
          code_desc = program.finalize(agent, module, symbol_offset)
          kernarg_region = [r for r in agent.regions
                            if r.supports_kernargs][0]
          # Cache the finalized program
          result = _CacheEntry(code_desc=code_desc, program=program,
                               kernarg_region=kernarg_region)
          self._cache[ctx] = result
      return ctx, result
  \<close>
\<close>

definition finalize_for ::
  "'d collaborators \<Rightarrow> addr \<Rightarrow> device_context \<Rightarrow> string \<Rightarrow> string \<Rightarrow> ('d, cache_entry) action" where
  "finalize_for col self ctx name bin =
     (let symbol = ''&'' @ name in
      andthen (external (EvFinalization LoadModule self ctx) (from_memory col bin))
        (\<lambda>brig_module.
      andthen (external (EvFinalization FindSymbol self ctx)
                 (find_symbol_offset col brig_module symbol))
        (\<lambda>symbol_offset.
      let ag = ctx_agent ctx in
      andthen (external (EvFinalization CreateProgram self ctx) (create_program col [ag]))
        (\<lambda>prog.
      andthen (external (EvFinalization AddModule self ctx) (add_module col prog brig_module))
        (\<lambda>module.
      andthen (external (EvFinalization Finalize self ctx)
                 (finalize col prog ag module symbol_offset))
        (\<lambda>cd.
      andthen (external (EvFinalization SelectRegion self ctx)
                 (\<lambda>d. (select_kernarg_region ag, d)))
        (\<lambda>reg.
      let result = \<lparr>code_desc = cd, program = prog, kernarg_region = reg\<rparr> in
      andthen (cache_store self ctx result) (\<lambda>_. ret result))))))))"

definition CachedProgram_get :: "'d collaborators \<Rightarrow> addr \<Rightarrow> ('d, device_context \<times> cache_entry) action" where
  "CachedProgram_get col self =
     (\<lambda>w. let ctx = current_context w;
               me = cacheprogs w ! self
           in case map_of (cp_cache me) ctx of
                Some result \<Rightarrow> (Inr (ctx, result), w)
              | None \<Rightarrow>
                  andthen (finalize_for col self ctx (cp_entry_name me) (cp_binary me))
                    (\<lambda>result. ret (ctx, result)) w)"



section \<open>Kernel object\<close>

definition write_cell :: "kernarg_buffer \<Rightarrow> int \<Rightarrow> cell \<Rightarrow> kernarg_buffer" where
  "write_cell kernargs offset av = kernargs\<lparr>buf_writes := (offset, av) # buf_writes kernargs\<rparr>"

text \<open>
  \<^verbatim>\<open>
  injectargs = ctypes.cast(kernargs,
                           ctypes.POINTER(ctypes.c_void_p * self.INJECTED_NARG)).contents
  for i in range(self.INJECTED_NARG):
      injectargs[i] = 0
  \<close>
  Element \<open>i\<close> of an array of pointers is at byte \<open>i * psz\<close>.
\<close>

definition inject_dummy :: "int \<Rightarrow> kernarg_buffer \<Rightarrow> kernarg_buffer" where
  "inject_dummy psz kernargs =
     foldl (\<lambda>ka i. write_cell ka (int i * psz) (Cell c_void_p (PyInt 0))) kernargs
       [0..<INJECTED_NARG]"

text \<open>
  \<^verbatim>\<open>
  def bind(self):
      ctx, entry = self._cacheprog.get()
      kernarg_type = (ctypes.c_byte * entry.code_desc._id.kernarg_segment_byte_size)
      kernargs = entry.kernarg_region.allocate(kernarg_type)
      # Inject dummy argument
      ...
      return ctx, entry.code_desc, kernargs, entry.kernarg_region
  \<close>
\<close>

definition HSAKernel_bind ::
  "'d collaborators \<Rightarrow> addr
     \<Rightarrow> ('d, device_context \<times> code_descriptor \<times> kernarg_buffer \<times> region) action" where
  "HSAKernel_bind col self =
     (\<lambda>w. andthen (CachedProgram_get col (cacheprog (kernels w ! self)))
             (\<lambda>(ctx, entry).
                let n = kernarg_segment_byte_size (code_desc entry) in
                andthen (external (EvAllocate (kernarg_region entry) n)
                           (allocate col (kernarg_region entry) n))
                  (\<lambda>a. let kernargs = \<lparr>buf_addr = a, buf_size = n, buf_writes = []\<rparr>
                        in ret (ctx, code_desc entry, inject_dummy (sizeof_void_p col) kernargs,
                                kernarg_region entry))) w)"

text \<open>
  \<^verbatim>\<open>
  base = self._injectedargsize
  for av in expanded_values:
      # Adjust for alignemnt
      align = ctypes.sizeof(av)
      pad = _calc_padding_for_alignment(align, base)
      base += pad
      # Move to offset
      offseted = ctypes.addressof(kernargs) + base
      asptr = ctypes.cast(offseted, ctypes.POINTER(type(av)))
      # Assign value
      asptr[0] = av
      # Increment offset
      base += align
  \<close>
  The loop returns the final \<open>base\<close> and the buffer with the cells written.
\<close>

fun insert_kernel_arguments ::
  "int \<Rightarrow> kernarg_buffer \<Rightarrow> int \<Rightarrow> cell list \<Rightarrow> error + int \<times> kernarg_buffer" where
  "insert_kernel_arguments psz kernargs base [] = Inr (base, kernargs)"
| "insert_kernel_arguments psz kernargs base (av # avs) =
     (let align = sizeof psz av in
      case calc_padding_for_alignment align base of
        Inl e \<Rightarrow> Inl e
      | Inr pad \<Rightarrow>
          (let base1 = base + pad;
               kernargs1 = write_cell kernargs base1 av;
               base2 = base1 + align
           in insert_kernel_arguments psz kernargs1 base2 avs))"

text \<open>
  \<^verbatim>\<open>
  def __call__(self, *args):
      ctx, code_desc, kernargs, kernarg_region = self.bind()
      # Unpack pyobject values into ctypes scalar values
      expanded_values = []
      for ty, val in zip(self.argument_types, args):
          _unpack_argument(ty, val, expanded_values)
      # Insert kernel arguments
      ...
      assert base == ctypes.sizeof(kernargs), \
          "Kernel argument size is invalid"
      # Actual Kernel launch
      qq = ctx.default_queue
      # Dispatch
      qq.dispatch(code_desc, kernargs, workgroup_size=self.local_size,
                  grid_size=self.global_size)
      # Free kernel region
      kernarg_region.free(kernargs)
  \<close>
  A failed \<^verbatim>\<open>assert\<close> raises \<^verbatim>\<open>AssertionError\<close> with the message (the
  interpreter is taken to run without \<^verbatim>\<open>-O\<close>, which would strip the statement).
\<close>

definition launch ::
  "'d collaborators \<Rightarrow> device_context \<Rightarrow> code_descriptor \<Rightarrow> kernarg_buffer \<Rightarrow> region
     \<Rightarrow> int list option \<Rightarrow> int list \<Rightarrow> ('d, unit) action" where
  "launch col ctx cd kernargs reg workgroup_size grid_size =
     andthen (external (EvDispatch ctx cd kernargs workgroup_size grid_size)
                (dispatch col ctx cd kernargs workgroup_size grid_size))
       (\<lambda>_. external (EvFree reg (buf_addr kernargs)) (free col reg (buf_addr kernargs)))"

definition HSAKernel_call :: "'d collaborators \<Rightarrow> addr \<Rightarrow> pyval list \<Rightarrow> ('d, unit) action" where
  "HSAKernel_call col self args =
     andthen (HSAKernel_bind col self)
       (\<lambda>(ctx, cd, kernargs, reg) w.
          let me = kernels w ! self in
          case unpack_arguments (zip (argument_types me) args) [] of
            Inl e \<Rightarrow> (Inl e, w)
          | Inr expanded_values \<Rightarrow>
              (case insert_kernel_arguments (sizeof_void_p col) kernargs (injectedargsize me)
                      expanded_values of
                 Inl e \<Rightarrow> (Inl e, w)
               | Inr (base, kernargs1) \<Rightarrow>
                   if base \<noteq> int (buf_size kernargs1)
                   then (Inl (AssertionError ''Kernel argument size is invalid''), w)
                   else launch col ctx cd kernargs1 reg (local_size me) (global_size me) w))"

text \<open>
  \<^verbatim>\<open>HSAKernel.__init__\<close> (above, with the record) and
  \<^verbatim>\<open>
  def _finalize(self):
      hlcmod = hlc.Module()
      for m in self._llvm_module._modules:
          hlcmod.load_llvm(str(m))
      return hlcmod.finalize()

  def compile_kernel(pyfunc, args, debug=False):
      cres = compile_hsa(pyfunc, types.void, args, debug=debug)
      func = cres.library.get_function(cres.fndesc.llvm_func_name)
      kernel = cres.target_context.prepare_hsa_kernel(func, cres.signature.args)
      hsakern = HSAKernel(llvm_module=cres.library._final_module,
                          name=kernel.name,
                          argtypes=cres.signature.args)
      return hsakern
  \<close>
  The new kernel object and its new cache object are appended to their tables once
  \<^verbatim>\<open>_finalize\<close> has returned; if it raises, no object is left behind that anything
  refers to.
\<close>

definition HSAKernel_init ::
  "'d collaborators \<Rightarrow> nat \<Rightarrow> string \<Rightarrow> numba_type list \<Rightarrow> ('d, addr) action" where
  "HSAKernel_init col llvm name argtypes =
     andthen (external (EvFinalizeHLC llvm) (hlc_finalize col llvm))
       (\<lambda>(asm, bin) w.
          let cp = length (cacheprogs w);
              self = length (kernels w);
              me = \<lparr>global_size = [1], local_size = Some [1], stream = None,
                    llvm_module = llvm, assembly = asm, binary = bin, entry_name = name,
                    argument_types = argtypes, argloc = [],
                    injectedargsize = int INJECTED_NARG * sizeof_void_p col,
                    cacheprog = cp\<rparr>
          in (Inr self,
              w\<lparr>cacheprogs := cacheprogs w
                   @ [\<lparr>cp_entry_name = name, cp_binary = bin, cp_cache = []\<rparr>],
                kernels := kernels w @ [me]\<rparr>))"

definition compile_kernel :: "'d collaborators \<Rightarrow> nat \<Rightarrow> numba_type list \<Rightarrow> ('d, addr) action" where
  "compile_kernel col pyfunc args =
     andthen (external (EvCompile pyfunc args) (lower_kernel col pyfunc args))
       (\<lambda>cres. HSAKernel_init col (low_llvm_module cres) (low_kernel_name cres)
                 (low_signature_args cres))"

section \<open>Specialization table\<close>

text \<open>
  \<^verbatim>\<open>AutoJitHSAKernel.__init__\<close> (above, with the record): a new wrapper with a new,
  empty dictionary.
\<close>

definition AutoJitHSAKernel_init :: "nat \<Rightarrow> ('d, addr) action" where
  "AutoJitHSAKernel_init func =
     (\<lambda>w. let d = length (dicts w);
               self = length (autojits w);
               me = \<lparr>global_size = [1], local_size = Some [1], stream = None,
                     py_func = func, definitions = d\<rparr>
           in (Inr self, w\<lparr>dicts := dicts w @ [[]], autojits := autojits w @ [me]\<rparr>))"

text \<open>
  \<^verbatim>\<open>
  argtypes = tuple([self.typingctx.resolve_argument_type(a) for a in args])
  \<close>
  The first argument that does not resolve raises.
\<close>

fun resolve_all :: "'d collaborators \<Rightarrow> pyval list \<Rightarrow> error + numba_type list" where
  "resolve_all col [] = Inr []"
| "resolve_all col (a # args) =
     (case resolve_argument_type col a of
        Inl e \<Rightarrow> Inl e
      | Inr ty \<Rightarrow> (case resolve_all col args of Inl e \<Rightarrow> Inl e | Inr tys \<Rightarrow> Inr (ty # tys)))"

definition definitions_store :: "addr \<Rightarrow> numba_type list \<Rightarrow> addr \<Rightarrow> ('d, unit) action" where
  "definitions_store d argtypes kern =
     (\<lambda>w. (Inr (), w\<lparr>dicts := (dicts w)[d := dict_store argtypes kern (dicts w ! d)]\<rparr>))"

text \<open>
  \<^verbatim>\<open>
  def specialize(self, *args):
      argtypes = tuple([self.typingctx.resolve_argument_type(a)
                        for a in args])
      kernel = self.definitions.get(argtypes)
      if kernel is None:
          kernel = compile_kernel(self.py_func, argtypes)
          self.definitions[argtypes] = kernel
      return kernel
  \<close>
\<close>

definition AutoJitHSAKernel_specialize ::
  "'d collaborators \<Rightarrow> addr \<Rightarrow> pyval list \<Rightarrow> ('d, addr) action" where
  "AutoJitHSAKernel_specialize col self args =
     (\<lambda>w. let me = autojits w ! self in
           case resolve_all col args of
             Inl e \<Rightarrow> (Inl e, w)
           | Inr argtypes \<Rightarrow>
               (case map_of (dicts w ! definitions me) argtypes of
                  Some kern \<Rightarrow> (Inr kern, w)
                | None \<Rightarrow>
                    andthen (compile_kernel col (py_func me) argtypes)
                      (\<lambda>kern. andthen (definitions_store (definitions me) argtypes kern)
                                 (\<lambda>_. ret kern)) w))"

text \<open>
  \<^verbatim>\<open>
  def __call__(self, *args):
      kernel = self.specialize(*args)
      cfg = kernel.configure(self.global_size, self.local_size, self.stream)
      cfg(*args)
  \<close>
\<close>

definition AutoJitHSAKernel_call :: "'d collaborators \<Rightarrow> addr \<Rightarrow> pyval list \<Rightarrow> ('d, unit) action" where
  "AutoJitHSAKernel_call col self args =
     andthen (AutoJitHSAKernel_specialize col self args)
       (\<lambda>kern w.
          let me = autojits w ! self;
              (h, cfg) = configure (kernels w) kern (Sequence (global_size me))
                           (map_option Sequence (local_size me)) (stream me)
          in HSAKernel_call col cfg args (w\<lparr>kernels := h\<rparr>))"

section \<open>What the properties speak of\<close>

text \<open>
  The clones of a kernel: the addresses that descend from the members of \<open>fam\<close> through a
  sequence of \<^verbatim>\<open>configure\<close> calls.
\<close>

fun family ::
  "('a hsa_kernel_base_scheme) list \<Rightarrow> addr list \<Rightarrow> configure_call list \<Rightarrow> addr list" where
  "family h fam [] = fam"
| "family h fam ((self, gs, ls, strm) # calls) =
     (let (h1, clone) = configure h self gs ls strm
      in family h1 (if self \<in> set fam then clone # fam else fam) calls)"

fun is_dispatch :: "event \<Rightarrow> bool" where
  "is_dispatch (EvDispatch ctx cd ka ls gs) = True"
| "is_dispatch _ = False"

fun is_allocate :: "event \<Rightarrow> bool" where
  "is_allocate (EvAllocate reg n) = True"
| "is_allocate _ = False"

fun is_finalization :: "event \<Rightarrow> bool" where
  "is_finalization (EvFinalization s cp ctx) = True"
| "is_finalization _ = False"

fun is_compile :: "event \<Rightarrow> bool" where
  "is_compile (EvCompile f tys) = True"
| "is_compile _ = False"

text \<open>
  The six steps of one finalization, as the trace records them.
\<close>

definition all_steps :: "addr \<Rightarrow> device_context \<Rightarrow> event list" where
  "all_steps self ctx = map (\<lambda>s. EvFinalization s self ctx)
     [LoadModule, FindSymbol, CreateProgram, AddModule, Finalize, SelectRegion]"

text \<open>
  The layout in the words of the specification: before each cell, the padding is 0 if
  the offset is a multiple of the cell's alignment (its size) and the alignment minus the
  remainder otherwise; the cell is placed after the padding and the offset advances by
  the cell's size. \<open>spec_layout\<close> is the list of placed cells, \<open>spec_layout_end\<close> the
  final running offset.
\<close>

definition spec_padding :: "int \<Rightarrow> int \<Rightarrow> int" where
  "spec_padding a b = (if b mod a = 0 then 0 else a - b mod a)"

fun spec_layout :: "int \<Rightarrow> int \<Rightarrow> cell list \<Rightarrow> (int \<times> cell) list" where
  "spec_layout psz b [] = []"
| "spec_layout psz b (c # cs) =
     (b + spec_padding (sizeof psz c) b, c)
       # spec_layout psz (b + spec_padding (sizeof psz c) b + sizeof psz c) cs"

fun spec_layout_end :: "int \<Rightarrow> int \<Rightarrow> cell list \<Rightarrow> int" where
  "spec_layout_end psz b [] = b"
| "spec_layout_end psz b (c # cs) =
     spec_layout_end psz (b + spec_padding (sizeof psz c) b + sizeof psz c) cs"

text \<open>
  A platform to run the model on: pointers of 8 bytes, one agent with two regions of which
  the second can hold kernel arguments, and collaborators that always succeed. Handles
  are numbered by a counter, the state of these collaborators; every finalized program
  reports a kernel-argument segment of \<open>seg\<close> bytes. Integers resolve to 64-bit
  integers, floats to Float64, arrays to arrays of Float64 of their rank; other objects do
  not resolve.
\<close>

definition example_agent :: agent where
  "example_agent =
     \<lparr>agent_id = 0,
      regions = [\<lparr>region_id = 0, supports_kernargs = False\<rparr>,
                 \<lparr>region_id = 1, supports_kernargs = True\<rparr>]\<rparr>"

definition example_context :: "nat \<Rightarrow> device_context" where
  "example_context i = \<lparr>ctx_id = i, ctx_agent = example_agent\<rparr>"

fun example_resolve :: "pyval \<Rightarrow> error + numba_type" where
  "example_resolve (PyInt v) = Inr (SignedInteger 64)"
| "example_resolve (PyBool b) = Inr Boolean"
| "example_resolve (PyFloat f) = Inr Float64"
| "example_resolve (PyComplex re im) = Inr Complex128"
| "example_resolve (PyArray a) = Inr (Array Float64 (arr_ndim a))"
| "example_resolve (PyObject n) = Inl TypeError"

definition example_collaborators :: "nat \<Rightarrow> nat collaborators" where
  "example_collaborators seg =
     \<lparr>sizeof_void_p = 8,
      from_memory = (\<lambda>bin d. (Inr d, Suc d)),
      find_symbol_offset = (\<lambda>m sym d. (Inr 0, d)),
      create_program = (\<lambda>ags d. (Inr d, Suc d)),
      add_module = (\<lambda>p m d. (Inr d, Suc d)),
      finalize = (\<lambda>p ag m off d. (Inr \<lparr>code_id = d, kernarg_segment_byte_size = seg\<rparr>, Suc d)),
      allocate = (\<lambda>reg n d. (Inr d, Suc d)),
      free = (\<lambda>reg a d. (Inr (), d)),
      dispatch = (\<lambda>ctx cd ka ls gs d. (Inr (), d)),
      resolve_argument_type = example_resolve,
      lower_kernel = (\<lambda>f tys d.
        (Inr \<lparr>low_llvm_module = d, low_kernel_name = ''kernel'', low_signature_args = tys\<rparr>,
         Suc d)),
      hlc_finalize = (\<lambda>m d. (Inr (''hsail'', ''brig''), d))\<rparr>"

text \<open>
  A world with one kernel object, as \<^verbatim>\<open>HSAKernel.__init__\<close> builds it for the given
  argument types, its cache object, and one wrapper with an empty dictionary.
\<close>

definition example_kernel :: "numba_type list \<Rightarrow> hsa_kernel" where
  "example_kernel argtypes =
     \<lparr>global_size = [1], local_size = Some [1], stream = None,
      llvm_module = 0, assembly = ''hsail'', binary = ''brig'', entry_name = ''kernel'',
      argument_types = argtypes, argloc = [], injectedargsize = 48, cacheprog = 0\<rparr>"

definition example_world :: "numba_type list \<Rightarrow> nat world" where
  "example_world argtypes =
     \<lparr>kernels = [example_kernel argtypes],
      autojits = [\<lparr>global_size = [1], local_size = Some [1], stream = None,
                   py_func = 7, definitions = 0\<rparr>],
      cacheprogs = [\<lparr>cp_entry_name = ''kernel'', cp_binary = ''brig'', cp_cache = []\<rparr>],
      dicts = [[]],
      current_context = example_context 0,
      collab_state = 100,
      trace = []\<rparr>"

text \<open>
  The entry the example collaborators produce when their counter is at \<open>d\<close>.
\<close>

definition example_entry :: "nat \<Rightarrow> nat \<Rightarrow> cache_entry" where
  "example_entry seg d =
     \<lparr>code_desc = \<lparr>code_id = d + 3, kernarg_segment_byte_size = seg\<rparr>, program = d + 1,
      kernarg_region = \<lparr>region_id = 1, supports_kernargs = True\<rparr>\<rparr>"

text \<open>
  An array value of rank \<open>n\<close> with the given shape and strides, of 4-byte items.
\<close>

definition example_array :: "nat \<Rightarrow> int list \<Rightarrow> int list \<Rightarrow> ndarray" where
  "example_array n shp strd =
     \<lparr>arr_size = prod_list shp, arr_itemsize = 4, arr_data = 4096, arr_ndim = n,
      arr_shape = shp, arr_strides = strd\<rparr>"

text \<open>
  Every cell of a list has a positive size.
\<close>

definition cells_have_size :: "int \<Rightarrow> cell list \<Rightarrow> bool" where
  "cells_have_size psz cells = (\<forall>c\<in>set cells. 0 < sizeof psz c)"

text \<open>
  The region the example agent offers for kernel arguments, and the example world after
  its first \<^verbatim>\<open>bind\<close>.
\<close>

definition example_region :: region where
  "example_region = \<lparr>region_id = 1, supports_kernargs = True\<rparr>"

definition example_bound :: "nat \<Rightarrow> numba_type list \<Rightarrow> nat world" where
  "example_bound seg tys =
     (example_world tys)\<lparr>collab_state := 105,
         trace := all_steps 0 (example_context 0) @ [EvAllocate example_region seg],
         cacheprogs := [\<lparr>cp_entry_name = ''kernel'', cp_binary = ''brig'',
                         cp_cache = [(example_context 0, example_entry seg 100)]\<rparr>]\<rparr>"

text \<open>
  The dictionary at \<open>d\<close> is well formed: it exists, no kernel object is stored under two
  signatures, and every kernel object it stores is in the object table.
\<close>

definition table_ok :: "'d world \<Rightarrow> addr \<Rightarrow> bool" where
  "table_ok w d =
     (d < length (dicts w) \<and> distinct (map snd (dicts w ! d))
      \<and> (\<forall>k\<in>set (map snd (dicts w ! d)). k < length (kernels w)))"

section \<open>Properties of the configuration model\<close>

lemma append_ones_replicate: "append_ones k val = val @ replicate k 1"
  by (induction k arbitrary: val) (simp_all add: replicate_app_Cons_same)

lemma ensure_size_or_append_eq:
  "ensure_size_or_append val sz = val @ replicate (sz - length val) 1"
  by (simp add: ensure_size_or_append_def append_ones_replicate)

lemma length_ensure_size_or_append:
  "length (ensure_size_or_append val sz) = max (length val) sz"
  by (simp add: ensure_size_or_append_eq)

lemma configure_eq:
  "configure h self gsize lsize strm =
     (h @ [(h ! self)\<lparr>global_size := fst (pad_sizes gsize lsize),
                      local_size := truthy_or_None (snd (pad_sizes gsize lsize)),
                      stream := strm\<rparr>],
      length h)"
  by (simp add: configure_def copy_def Let_def split: prod.splits)

lemma configure_nth_old: "a < length h \<Longrightarrow> fst (configure h self gs ls strm) ! a = h ! a"
  by (simp add: configure_eq nth_append)

lemma configure_length: "length (fst (configure h self gs ls strm)) = Suc (length h)"
  by (simp add: configure_eq)

lemma configure_clone: "snd (configure h self gs ls strm) = length h"
  by (simp add: configure_eq)

lemma configure_calls_Cons:
  "configure_calls h ((self, gs, ls, strm) # calls) =
     (fst (configure_calls (fst (configure h self gs ls strm)) calls),
      snd (configure h self gs ls strm)
        # snd (configure_calls (fst (configure h self gs ls strm)) calls))"
  by (simp add: case_prod_beta Let_def)

declare configure_calls.simps(2) [simp del]

lemma configure_calls_nth_old:
  "a < length h \<Longrightarrow> fst (configure_calls h calls) ! a = h ! a"
proof (induction calls arbitrary: h)
  case Nil
  then show ?case by simp
next
  case (Cons c calls)
  obtain self gs ls strm where c: "c = (self, gs, ls, strm)" by (cases c) auto
  let ?h1 = "fst (configure h self gs ls strm)"
  have "a < length ?h1" using Cons.prems by (simp add: configure_length)
  then have "fst (configure_calls ?h1 calls) ! a = ?h1 ! a" by (rule Cons.IH)
  then show ?case using Cons.prems by (simp add: c configure_calls_Cons configure_nth_old)
qed

lemma configure_calls_fresh:
  "c \<in> set (snd (configure_calls h calls)) \<Longrightarrow> length h \<le> c"
proof (induction calls arbitrary: h)
  case Nil
  then show ?case by simp
next
  case (Cons x calls)
  obtain self gs ls strm where x: "x = (self, gs, ls, strm)" by (cases x) auto
  let ?h1 = "fst (configure h self gs ls strm)"
  from Cons.prems have "c = length h \<or> c \<in> set (snd (configure_calls ?h1 calls))"
    by (simp add: x configure_calls_Cons configure_clone)
  then show ?case using Cons.IH[of ?h1] by (auto simp: configure_length)
qed

lemma pad_sizes_Some:
  "pad_sizes gs (Some ls) =
     (pad_right (ensure_list gs) (common_rank gs ls),
      Some (pad_right (ensure_list ls) (common_rank gs ls)))"
  by (simp add: pad_sizes_def Let_def ensure_size_or_append_eq pad_right_def common_rank_def)

lemma pad_sizes_None: "pad_sizes gs None = (ensure_list gs, None)"
  by (simp add: pad_sizes_def)

lemma length_pad_right: "length (pad_right xs n) = max (length xs) n"
  by (simp add: pad_right_def)

lemma zip_products:
  "length xs = n \<Longrightarrow> length ys = n \<Longrightarrow>
     map (\<lambda>(g, l). g * l) (zip xs ys) = map (\<lambda>i. xs ! i * ys ! i) [0..<n]"
  by (auto intro!: nth_equalityI)

lemma length_grid_times_block: "length (grid_times_block g b) = common_rank g b"
  by (simp add: grid_times_block_def Let_def)

lemma getitem_eq:
  "getitem h self g b rest =
    (case rest of
       [] \<Rightarrow> Inr (configure h self (Sequence (grid_times_block g b)) (Some b) None)
     | [strm] \<Rightarrow> Inr (configure h self (Sequence (grid_times_block g b)) (Some b) strm)
     | _ \<Rightarrow> Inl TypeError)"
proof -
  let ?n = "common_rank g b"
  let ?G = "pad_right (ensure_list g) ?n" and ?B = "pad_right (ensure_list b) ?n"
  have len: "length ?G = ?n" "length ?B = ?n"
    by (auto simp: length_pad_right common_rank_def)
  have gs: "map (\<lambda>(g, l). g * l) (zip ?G ?B) = grid_times_block g b"
    using zip_products[OF len] by (simp add: grid_times_block_def Let_def)
  have p: "pad_sizes (Sequence (grid_times_block g b)) (Some (Sequence ?B))
         = pad_sizes (Sequence (grid_times_block g b)) (Some b)"
    using len by (simp add: pad_sizes_Some common_rank_def pad_right_def length_grid_times_block)
  have c: "configure h self (Sequence (grid_times_block g b)) (Some (Sequence ?B)) s
         = configure h self (Sequence (grid_times_block g b)) (Some b) s" for s
    by (simp add: configure_eq p)
  show ?thesis
    unfolding getitem_def Let_def ensure_size_or_append_eq
    using gs c by (simp add: pad_right_def common_rank_def split: list.splits)
qed

text \<open>
  Claim C6, as the code has it. When \<^verbatim>\<open>configure\<close> is given both sizes and at least
  one of them is not empty, the clone stores both right-padded with trailing 1s to the
  larger of the two ranks, so the stored ranks are equal. When \<^verbatim>\<open>local_size\<close> is
  absent, \<^verbatim>\<open>global_size\<close> is stored as given, unpadded, and no local size is stored.
\<close>

theorem configure_pads_to_common_rank:
  "(0 < common_rank gs ls \<longrightarrow>
      global_size (fst (configure h self gs (Some ls) strm) ! snd (configure h self gs (Some ls) strm))
        = pad_right (ensure_list gs) (common_rank gs ls)
    \<and> local_size (fst (configure h self gs (Some ls) strm) ! snd (configure h self gs (Some ls) strm))
        = Some (pad_right (ensure_list ls) (common_rank gs ls))
    \<and> length (pad_right (ensure_list gs) (common_rank gs ls)) = common_rank gs ls
    \<and> length (pad_right (ensure_list ls) (common_rank gs ls)) = common_rank gs ls)
   \<and> global_size (fst (configure h self gs None strm) ! snd (configure h self gs None strm))
        = ensure_list gs
   \<and> local_size (fst (configure h self gs None strm) ! snd (configure h self gs None strm)) = None"
proof -
  have "0 < common_rank gs ls \<Longrightarrow> pad_right (ensure_list ls) (common_rank gs ls) \<noteq> []"
    using length_pad_right[of "ensure_list ls" "common_rank gs ls"] by (auto simp: common_rank_def)
  then show ?thesis
    by (auto simp: configure_eq pad_sizes_Some pad_sizes_None truthy_or_None_def
        length_pad_right common_rank_def)
qed

text \<open>
  An instance of C6: \<^verbatim>\<open>configure((2, 3), 4)\<close> on the object \<^verbatim>\<open>__init__\<close> builds
  stores \<open>(2, 3)\<close> and \<open>(4, 1)\<close>.
\<close>

theorem configure_pads_to_common_rank_witness:
  "0 < common_rank (Sequence [2, 3]) (Scalar 4)
   \<and> global_size (fst (configure [HSAKernelBase_init] 0 (Sequence [2, 3]) (Some (Scalar 4)) None)
        ! snd (configure [HSAKernelBase_init] 0 (Sequence [2, 3]) (Some (Scalar 4)) None)) = [2, 3]
   \<and> local_size (fst (configure [HSAKernelBase_init] 0 (Sequence [2, 3]) (Some (Scalar 4)) None)
        ! snd (configure [HSAKernelBase_init] 0 (Sequence [2, 3]) (Some (Scalar 4)) None)) = Some [4, 1]"
proof -
  have r: "common_rank (Sequence [2, 3]) (Scalar 4) = 2"
    by (simp add: common_rank_def)
  show ?thesis
    using configure_pads_to_common_rank
      [of "Sequence [2, 3]" "Scalar 4" "[HSAKernelBase_init]" 0 None]
    by (simp add: r pad_right_def)
qed

text \<open>
  Claim C6 as the specification states it fails when both sizes are empty sequences:
  \<^verbatim>\<open>configure((), ())\<close> stores no local size at all (\<^verbatim>\<open>None\<close>), not the empty
  sequence padded to rank 0, because the code tests the truth value of the list.
\<close>

theorem configure_empty_sizes_counterexample:
  "local_size (fst (configure [HSAKernelBase_init] 0 (Sequence []) (Some (Sequence [])) None)
                 ! snd (configure [HSAKernelBase_init] 0 (Sequence []) (Some (Sequence [])) None))
     = None
   \<and> local_size (fst (configure [HSAKernelBase_init] 0 (Sequence []) (Some (Sequence [])) None)
                 ! snd (configure [HSAKernelBase_init] 0 (Sequence []) (Some (Sequence [])) None))
     \<noteq> Some (pad_right (ensure_list (Sequence []))
               (common_rank (Sequence []) (Sequence [])))"
  by (simp add: configure_eq pad_sizes_Some truthy_or_None_def pad_right_def common_rank_def)

text \<open>
  Claim C7. \<^verbatim>\<open>configure\<close> returns a new object and never mutates its receiver: every
  object that exists before the call (the receiver among them) is the same object after
  it, the clone's address is none of theirs, and this stays so after any sequence of
  further \<^verbatim>\<open>configure\<close> calls on any receivers (the original or its clones). The
  \<^verbatim>\<open>global_size\<close>, \<^verbatim>\<open>local_size\<close> and \<^verbatim>\<open>stream\<close> of the original are fields of
  the unchanged object.
\<close>

theorem configure_never_mutates_receiver:
  "a < length h \<Longrightarrow>
     fst (configure h self gs ls strm) ! a = h ! a
   \<and> snd (configure h self gs ls strm) \<noteq> a
   \<and> fst (configure_calls h calls) ! a = h ! a
   \<and> a \<notin> set (snd (configure_calls h calls))"
  using configure_calls_fresh[of a h calls]
  by (simp add: configure_nth_old configure_clone configure_calls_nth_old) auto

text \<open>
  An instance of C7: the original is configured, then its clone, then the original again;
  the original still has the configuration \<^verbatim>\<open>__init__\<close> gave it.
\<close>

theorem configure_never_mutates_receiver_witness:
  "(0::nat) < length [HSAKernelBase_init]
   \<and> fst (configure_calls [HSAKernelBase_init]
        [(0, Scalar 64, Some (Scalar 8), Some 5), (1, Sequence [2, 2], None, None),
         (0, Scalar 7, None, None)]) ! 0 = HSAKernelBase_init
   \<and> snd (configure_calls [HSAKernelBase_init]
        [(0, Scalar 64, Some (Scalar 8), Some 5), (1, Sequence [2, 2], None, None),
         (0, Scalar 7, None, None)]) = [1, 2, 3]"
proof -
  have l: "(0::nat) < length [HSAKernelBase_init]" by simp
  have c: "snd (configure_calls [HSAKernelBase_init]
        [(0, Scalar 64, Some (Scalar 8), Some 5), (1, Sequence [2, 2], None, None),
         (0, Scalar 7, None, None)]) = [1, 2, 3]"
    by (simp add: configure_calls_Cons configure_clone configure_length)
  show ?thesis
    using configure_never_mutates_receiver [OF l, of 0 "Scalar 64" "Some (Scalar 8)" "Some 5"
        "[(0, Scalar 64, Some (Scalar 8), Some 5), (1, Sequence [2, 2], None, None),
          (0, Scalar 7, None, None)]"] c
    by simp
qed

text \<open>
  Claim C8. The indexing form \<^verbatim>\<open>kernel[griddim, blockdim]\<close> and
  \<^verbatim>\<open>kernel[griddim, blockdim, stream]\<close> right-pads both to the common rank with 1s,
  multiplies them element-wise (\<open>grid_times_block\<close>) and yields what
  \<^verbatim>\<open>configure(global_size, blockdim, stream)\<close> yields: the same object table and the
  same clone, whose stored global size is the product. In particular
  \<^verbatim>\<open>kernel[(8,), (4,)]\<close> is \<^verbatim>\<open>kernel.configure((32,), (4,))\<close>.
\<close>

theorem getitem_is_configure_of_products:
  "getitem h self g b [] = Inr (configure h self (Sequence (grid_times_block g b)) (Some b) None)
   \<and> getitem h self g b [strm]
       = Inr (configure h self (Sequence (grid_times_block g b)) (Some b) strm)
   \<and> length (grid_times_block g b) = common_rank g b
   \<and> global_size (fst (configure h self (Sequence (grid_times_block g b)) (Some b) strm)
        ! snd (configure h self (Sequence (grid_times_block g b)) (Some b) strm))
       = grid_times_block g b
   \<and> getitem h self (Sequence [8]) (Sequence [4]) []
       = Inr (configure h self (Sequence [32]) (Some (Sequence [4])) None)"
proof -
  have "grid_times_block (Sequence [8]) (Sequence [4]) = [32]"
    by (simp add: grid_times_block_def common_rank_def pad_right_def)
  moreover have "pad_right (grid_times_block g b)
      (common_rank (Sequence (grid_times_block g b)) b) = grid_times_block g b"
    by (simp add: pad_right_def common_rank_def length_grid_times_block)
  ultimately show ?thesis
    using getitem_eq[of h self "Sequence [8]" "Sequence [4]" "[]"]
    by (simp add: getitem_eq length_grid_times_block configure_eq pad_sizes_Some)
qed

section \<open>Properties of the padding function\<close>

text \<open>
  Claim C3. For every positive alignment \<open>a\<close> and every non-negative offset \<open>b\<close> the
  padding is 0 if \<open>b mod a = 0\<close> and \<open>a - (b mod a)\<close> otherwise; in particular
  pad(align=8, base=3) = 5, pad(align=4, base=8) = 0, and pad(align=1, base=x) = 0 for
  all x.
\<close>

theorem calc_padding_for_alignment_spec:
  "(0 < a \<and> 0 \<le> b \<longrightarrow>
      calc_padding_for_alignment a b = Inr (if b mod a = 0 then 0 else a - b mod a))
   \<and> calc_padding_for_alignment 8 3 = Inr 5
   \<and> calc_padding_for_alignment 4 8 = Inr 0
   \<and> (\<forall>x. calc_padding_for_alignment 1 x = Inr 0)"
  by (simp add: calc_padding_for_alignment_def Let_def)

theorem calc_padding_for_alignment_spec_witness:
  "(0::int) < 16 \<and> (0::int) \<le> 52 \<and> calc_padding_for_alignment 16 52 = Inr 12"
  using calc_padding_for_alignment_spec [of 16 52] by simp

section \<open>Properties of the finalized-program cache\<close>

lemma map_of_dict_store: "map_of (dict_store k v kvs) = (map_of kvs)(k \<mapsto> v)"
  by (induction kvs) (auto simp: fun_eq_iff)


lemma external_frame:
  "external ev f w = (r, w') \<Longrightarrow>
     trace w' = trace w @ [ev] \<and> kernels w' = kernels w \<and> autojits w' = autojits w
     \<and> cacheprogs w' = cacheprogs w \<and> dicts w' = dicts w \<and> current_context w' = current_context w"
  by (auto simp: external_def split: prod.splits)

lemma finalize_for_Inr:
  "finalize_for col self ctx name bin w = (Inr e, w') \<Longrightarrow>
     trace w' = trace w @ all_steps self ctx
     \<and> cacheprogs w' = (cacheprogs w)[self := (cacheprogs w ! self)
                    \<lparr>cp_cache := dict_store ctx e (cp_cache (cacheprogs w ! self))\<rparr>]
     \<and> kernels w' = kernels w \<and> autojits w' = autojits w \<and> dicts w' = dicts w
     \<and> current_context w' = current_context w"
  unfolding finalize_for_def Let_def andthen_def external_def cache_store_def ret_def all_steps_def
  by (auto split: prod.splits sum.splits)

lemma finalize_for_frame:
  "finalize_for col self ctx name bin w = (r, w') \<Longrightarrow>
     (\<exists>evs. trace w' = trace w @ evs \<and> set evs \<subseteq> range (\<lambda>s. EvFinalization s self ctx))
     \<and> (case r of Inl e \<Rightarrow> cacheprogs w' = cacheprogs w | Inr e \<Rightarrow> True)
     \<and> kernels w' = kernels w \<and> autojits w' = autojits w \<and> dicts w' = dicts w
     \<and> current_context w' = current_context w"
  unfolding finalize_for_def Let_def andthen_def external_def cache_store_def ret_def
  by (auto split: prod.splits sum.splits)


lemma get_hit:
  "map_of (cp_cache (cacheprogs w ! self)) (current_context w) = Some e \<Longrightarrow>
     CachedProgram_get col self w = (Inr (current_context w, e), w)"
  by (simp add: CachedProgram_get_def Let_def)

lemma get_miss:
  "map_of (cp_cache (cacheprogs w ! self)) (current_context w) = None \<Longrightarrow>
     CachedProgram_get col self w =
       (case finalize_for col self (current_context w) (cp_entry_name (cacheprogs w ! self))
               (cp_binary (cacheprogs w ! self)) w of
          (Inl e, w1) \<Rightarrow> (Inl e, w1)
        | (Inr result, w1) \<Rightarrow> (Inr (current_context w, result), w1))"
  by (simp add: CachedProgram_get_def Let_def andthen_def ret_def split: prod.splits sum.splits)

lemma get_frame:
  assumes "CachedProgram_get col self w = (r, w')"
  shows "(\<exists>evs. trace w' = trace w @ evs
            \<and> set evs \<subseteq> range (\<lambda>s. EvFinalization s self (current_context w)))
     \<and> kernels w' = kernels w \<and> autojits w' = autojits w \<and> dicts w' = dicts w
     \<and> current_context w' = current_context w
     \<and> length (cacheprogs w') = length (cacheprogs w)"
proof (cases "map_of (cp_cache (cacheprogs w ! self)) (current_context w)")
  case (Some e)
  then show ?thesis using assms by (simp add: get_hit)
next
  case None
  obtain r1 w1 where f: "finalize_for col self (current_context w)
      (cp_entry_name (cacheprogs w ! self)) (cp_binary (cacheprogs w ! self)) w = (r1, w1)"
    by fastforce
  have w1: "w' = w1" using assms f by (simp add: get_miss[OF None] split: sum.splits)
  have len: "length (cacheprogs w1) = length (cacheprogs w)"
  proof (cases r1)
    case (Inl e)
    then show ?thesis using finalize_for_frame[OF f] by simp
  next
    case (Inr e)
    then show ?thesis using finalize_for_Inr[of col self _ _ _ w e w1] f by simp
  qed
  show ?thesis using finalize_for_frame[OF f] len by (simp add: w1)
qed


lemma get_Inr:
  assumes "self < length (cacheprogs w)"
      and "CachedProgram_get col self w = (Inr (ctx, e), w')"
  shows "ctx = current_context w
     \<and> map_of (cp_cache (cacheprogs w' ! self)) ctx = Some e
     \<and> trace w' = trace w @ (if map_of (cp_cache (cacheprogs w ! self)) ctx = None
                               then all_steps self ctx else [])"
proof (cases "map_of (cp_cache (cacheprogs w ! self)) (current_context w)")
  case (Some e')
  then show ?thesis using assms by (auto simp: get_hit)
next
  case None
  obtain r1 w1 where f: "finalize_for col self (current_context w)
      (cp_entry_name (cacheprogs w ! self)) (cp_binary (cacheprogs w ! self)) w = (r1, w1)"
    by fastforce
  have r: "r1 = Inr e" "w' = w1" "ctx = current_context w"
    using assms(2) f by (auto simp: get_miss[OF None] split: sum.splits)
  show ?thesis
    using finalize_for_Inr[of col self _ _ _ w e w1] f r None assms(1)
    by (simp add: map_of_dict_store)
qed





lemma example_finalize_for:
  "ctx_agent ctx = example_agent \<Longrightarrow>
   finalize_for (example_collaborators seg) self ctx name bin w =
      (Inr (example_entry seg (collab_state w)),
       w\<lparr>collab_state := collab_state w + 4, trace := trace w @ all_steps self ctx,
         cacheprogs := (cacheprogs w)[self := (cacheprogs w ! self)
            \<lparr>cp_cache := dict_store ctx (example_entry seg (collab_state w))
                           (cp_cache (cacheprogs w ! self))\<rparr>]\<rparr>)"
  by (simp add: finalize_for_def example_collaborators_def andthen_def external_def ret_def
      cache_store_def select_kernarg_region_def example_agent_def example_entry_def all_steps_def
      Let_def eval_nat_numeral)

lemma example_get_miss:
  "ctx_agent (current_context w) = example_agent \<Longrightarrow>
   map_of (cp_cache (cacheprogs w ! self)) (current_context w) = None \<Longrightarrow>
   CachedProgram_get (example_collaborators seg) self w =
      (Inr (current_context w, example_entry seg (collab_state w)),
       w\<lparr>collab_state := collab_state w + 4,
         trace := trace w @ all_steps self (current_context w),
         cacheprogs := (cacheprogs w)[self := (cacheprogs w ! self)
            \<lparr>cp_cache := dict_store (current_context w) (example_entry seg (collab_state w))
                           (cp_cache (cacheprogs w ! self))\<rparr>]\<rparr>)"
  by (simp add: get_miss example_finalize_for)

lemma example_world_get:
  "CachedProgram_get (example_collaborators seg) 0 (example_world tys) =
      (Inr (example_context 0, example_entry seg 100),
       (example_world tys)\<lparr>collab_state := 104,
         trace := all_steps 0 (example_context 0),
         cacheprogs := [\<lparr>cp_entry_name = ''kernel'', cp_binary = ''brig'',
                         cp_cache = [(example_context 0, example_entry seg 100)]\<rparr>]\<rparr>)"
proof -
  have "ctx_agent (current_context (example_world tys)) = example_agent"
    by (simp add: example_world_def example_context_def)
  moreover have "map_of (cp_cache (cacheprogs (example_world tys) ! 0))
      (current_context (example_world tys)) = None"
    by (simp add: example_world_def)
  ultimately show ?thesis
    by (simp add: example_get_miss) (simp add: example_world_def)
qed


section \<open>Properties of the argument marshaller\<close>

lemma axis_cells_ok:
  "n \<le> length xs \<Longrightarrow> axis_cells n xs = Inr (map (\<lambda>ax. Cell c_ssize_t (PyInt (xs ! ax))) [0..<n])"
  by (simp add: axis_cells_def)

lemma upt_two: "[0..<2] = [0, Suc 0]"
  by (simp add: upt_rec)

text \<open>
  Claim C4, as the code has it. The rank is read from the array value (\<^verbatim>\<open>val.ndim\<close>),
  not from the descriptor. For every array value of rank \<open>n\<close> (whose shape and strides
  have \<open>n\<close> entries, as those of every numpy array do) packing appends exactly
  \<open>4 + 2n\<close> cells in the fixed order: null parent, item count, item size, data pointer,
  \<open>n\<close> shape cells, \<open>n\<close> stride cells, the counts and sizes as pointer-width signed
  integers; for a value of rank 2 these are the 8 cells parent, count, itemsize, dataptr,
  shape0, shape1, stride0, stride1. The descriptor's rank \<open>r\<close> plays no part.
\<close>

theorem unpack_array_cells:
  assumes "arr_ndim a \<le> length (arr_shape a)" and "arr_ndim a \<le> length (arr_strides a)"
  shows "unpack_argument (Array et r) (PyArray a) kernelargs =
           Inr (kernelargs
                @ [Cell c_void_p (PyInt 0), Cell c_ssize_t (PyInt (arr_size a)),
                   Cell c_ssize_t (PyInt (arr_itemsize a)), Cell c_void_p (PyInt (arr_data a))]
                @ map (\<lambda>ax. Cell c_ssize_t (PyInt (arr_shape a ! ax))) [0..<arr_ndim a]
                @ map (\<lambda>ax. Cell c_ssize_t (PyInt (arr_strides a ! ax))) [0..<arr_ndim a])
       \<and> (\<forall>cells. unpack_argument (Array et r) (PyArray a) [] = Inr cells
             \<longrightarrow> length cells = 4 + 2 * arr_ndim a)
       \<and> (arr_ndim a = 2 \<longrightarrow>
            unpack_argument (Array et r) (PyArray a) [] =
              Inr [Cell c_void_p (PyInt 0), Cell c_ssize_t (PyInt (arr_size a)),
                   Cell c_ssize_t (PyInt (arr_itemsize a)), Cell c_void_p (PyInt (arr_data a)),
                   Cell c_ssize_t (PyInt (arr_shape a ! 0)),
                   Cell c_ssize_t (PyInt (arr_shape a ! 1)),
                   Cell c_ssize_t (PyInt (arr_strides a ! 0)),
                   Cell c_ssize_t (PyInt (arr_strides a ! 1))])"
proof -
  have u: "unpack_array a kargs =
           Inr (kargs
                @ [Cell c_void_p (PyInt 0), Cell c_ssize_t (PyInt (arr_size a)),
                   Cell c_ssize_t (PyInt (arr_itemsize a)), Cell c_void_p (PyInt (arr_data a))]
                @ map (\<lambda>ax. Cell c_ssize_t (PyInt (arr_shape a ! ax))) [0..<arr_ndim a]
                @ map (\<lambda>ax. Cell c_ssize_t (PyInt (arr_strides a ! ax))) [0..<arr_ndim a])" for kargs
    using assms by (simp add: unpack_array_def axis_cells_ok Let_def)
  show ?thesis
    by (auto simp: u upt_two)
qed

text \<open>
  An instance of C4: a 3 by 5 array of 4-byte items.
\<close>

theorem unpack_array_cells_witness:
  "arr_ndim (example_array 2 [3, 5] [20, 4]) \<le> length (arr_shape (example_array 2 [3, 5] [20, 4]))
   \<and> arr_ndim (example_array 2 [3, 5] [20, 4]) \<le> length (arr_strides (example_array 2 [3, 5] [20, 4]))
   \<and> unpack_argument (Array Float32 2) (PyArray (example_array 2 [3, 5] [20, 4])) [] =
        Inr [Cell c_void_p (PyInt 0), Cell c_ssize_t (PyInt 15), Cell c_ssize_t (PyInt 4),
             Cell c_void_p (PyInt 4096), Cell c_ssize_t (PyInt 3), Cell c_ssize_t (PyInt 5),
             Cell c_ssize_t (PyInt 20), Cell c_ssize_t (PyInt 4)]"
proof -
  have s: "arr_ndim (example_array 2 [3, 5] [20, 4]) \<le> length (arr_shape (example_array 2 [3, 5] [20, 4]))"
    and t: "arr_ndim (example_array 2 [3, 5] [20, 4]) \<le> length (arr_strides (example_array 2 [3, 5] [20, 4]))"
    by (simp_all add: example_array_def)
  show ?thesis
    using unpack_array_cells [OF s t, of Float32 2 "[]"] by (simp add: example_array_def upt_two)
qed

text \<open>
  Claim C4 as the specification states it fails when the value's rank is not the
  descriptor's: for a descriptor of rank 2 and an array of rank 1 the code emits 6 cells,
  not \<open>4 + 2 * 2\<close>.
\<close>

theorem unpack_array_rank_counterexample:
  "unpack_argument (Array Float32 2) (PyArray (example_array 1 [3] [4])) [] =
        Inr [Cell c_void_p (PyInt 0), Cell c_ssize_t (PyInt 3), Cell c_ssize_t (PyInt 4),
             Cell c_void_p (PyInt 4096), Cell c_ssize_t (PyInt 3), Cell c_ssize_t (PyInt 4)]
   \<and> length [Cell c_void_p (PyInt 0), Cell c_ssize_t (PyInt 3), Cell c_ssize_t (PyInt 4),
             Cell c_void_p (PyInt 4096), Cell c_ssize_t (PyInt 3), Cell c_ssize_t (PyInt 4)]
       \<noteq> 4 + 2 * 2"
  by (simp add: example_array_def unpack_array_def axis_cells_def)

section \<open>Properties of the kernel object\<close>

lemma calc_padding_pos:
  "0 < a \<Longrightarrow> calc_padding_for_alignment a b = Inr (spec_padding a b)"
  by (simp add: calc_padding_for_alignment_def spec_padding_def Let_def)

lemma insert_kernel_arguments_spec:
  "\<forall>c\<in>set cells. 0 < sizeof psz c \<Longrightarrow>
     insert_kernel_arguments psz kernargs base cells =
       Inr (spec_layout_end psz base cells,
            kernargs\<lparr>buf_writes := rev (spec_layout psz base cells) @ buf_writes kernargs\<rparr>)"
proof (induction cells arbitrary: kernargs base)
  case Nil
  then show ?case by simp
next
  case (Cons c cells)
  then show ?case by (simp add: calc_padding_pos write_cell_def Let_def)
qed

lemma append_cell_Inr:
  "append_cell acc r = Inr acc' \<Longrightarrow> \<exists>c. r = Inr c \<and> acc' = acc @ [c]"
  by (auto simp: append_cell_def split: sum.splits)

lemma c_integer_Inr: "c_integer ct v = Inr c \<Longrightarrow> \<exists>v'. c = Cell ct v'"
  by (cases "(ct, v)" rule: c_integer.cases) auto

lemma c_floating_Inr: "c_floating ct v = Inr c \<Longrightarrow> \<exists>v'. c = Cell ct v'"
  by (cases "(ct, v)" rule: c_floating.cases) auto

lemma axis_cells_Inr: "axis_cells n xs = Inr cs \<Longrightarrow> \<forall>c\<in>set cs. \<exists>v. c = Cell c_ssize_t v"
  by (auto simp: axis_cells_def split: if_splits)

lemma unpack_array_sizes:
  assumes "0 < psz" "unpack_array a acc = Inr acc'" "cells_have_size psz acc"
  shows "cells_have_size psz acc'"
  using assms axis_cells_Inr[of "arr_ndim a" "arr_shape a"]
    axis_cells_Inr[of "arr_ndim a" "arr_strides a"]
  by (fastforce simp: unpack_array_def cells_have_size_def Let_def split: sum.splits)

lemma unpack_complex_sizes:
  assumes "0 < sizeof_ctype psz ct" "unpack_complex ct val acc = Inr acc'" "cells_have_size psz acc"
  shows "cells_have_size psz acc'"
  using assms
  by (auto simp: unpack_complex_def cells_have_size_def split: sum.splits
      dest!: append_cell_Inr c_floating_Inr)

lemma unpack_argument_sizes:
  assumes "0 < psz" "unpack_argument ty val acc = Inr acc'" "cells_have_size psz acc"
  shows "cells_have_size psz acc'"
proof (cases ty)
  case (Array et r)
  then show ?thesis using assms unpack_array_sizes by (auto split: pyval.splits)
next
  case (SignedInteger w)
  then show ?thesis using assms
    by (auto simp: cells_have_size_def ctypes_has_width_def split: if_splits
        dest!: append_cell_Inr c_integer_Inr)
next
  case (UnsignedInteger w)
  then show ?thesis using assms
    by (auto simp: cells_have_size_def ctypes_has_width_def split: if_splits
        dest!: append_cell_Inr c_integer_Inr)
next
  case Float32
  then show ?thesis using assms
    by (auto simp: cells_have_size_def dest!: append_cell_Inr c_floating_Inr)
next
  case Float64
  then show ?thesis using assms
    by (auto simp: cells_have_size_def dest!: append_cell_Inr c_floating_Inr)
next
  case Boolean
  then show ?thesis using assms
    by (auto simp: cells_have_size_def split: sum.splits dest!: append_cell_Inr c_integer_Inr)
next
  case Complex64
  then show ?thesis using assms unpack_complex_sizes[of psz c_float] by auto
next
  case Complex128
  then show ?thesis using assms unpack_complex_sizes[of psz c_double] by auto
next
  case (OtherType n)
  then show ?thesis using assms by simp
qed

lemma unpack_arguments_sizes:
  "0 < psz \<Longrightarrow> unpack_arguments pairs acc = Inr acc' \<Longrightarrow> cells_have_size psz acc \<Longrightarrow>
     cells_have_size psz acc'"
proof (induction pairs arbitrary: acc)
  case Nil
  then show ?case by simp
next
  case (Cons p pairs)
  obtain ty val where p: "p = (ty, val)" by (cases p) auto
  from Cons.prems(2) obtain acc1 where
    u: "unpack_argument ty val acc = Inr acc1" and r: "unpack_arguments pairs acc1 = Inr acc'"
    by (auto simp: p split: sum.splits)
  show ?case using Cons.IH[OF Cons.prems(1) r] unpack_argument_sizes[OF Cons.prems(1) u Cons.prems(3)]
    by simp
qed



lemma inject_dummy_fields [simp]:
  "buf_size (inject_dummy psz ka) = buf_size ka" "buf_addr (inject_dummy psz ka) = buf_addr ka"
proof -
  have "buf_size (foldl (\<lambda>ka i. write_cell ka (int i * psz) (Cell c_void_p (PyInt 0))) ka is)
          = buf_size ka
      \<and> buf_addr (foldl (\<lambda>ka i. write_cell ka (int i * psz) (Cell c_void_p (PyInt 0))) ka is)
          = buf_addr ka" for "is"
    by (induction "is" arbitrary: ka) (simp_all add: write_cell_def)
  then show "buf_size (inject_dummy psz ka) = buf_size ka"
    "buf_addr (inject_dummy psz ka) = buf_addr ka"
    by (simp_all add: inject_dummy_def)
qed

lemma bind_unfold:
  "HSAKernel_bind col self w =
     (case CachedProgram_get col (cacheprog (kernels w ! self)) w of
        (Inl e, w1) \<Rightarrow> (Inl e, w1)
      | (Inr (ctx, entry), w1) \<Rightarrow>
          (case allocate col (kernarg_region entry)
                  (kernarg_segment_byte_size (code_desc entry)) (collab_state w1) of
             (r, d) \<Rightarrow>
               (case r of
                  Inl e \<Rightarrow> Inl e
                | Inr a \<Rightarrow>
                    Inr (ctx, code_desc entry,
                         inject_dummy (sizeof_void_p col)
                           \<lparr>buf_addr = a,
                            buf_size = kernarg_segment_byte_size (code_desc entry),
                            buf_writes = []\<rparr>,
                         kernarg_region entry),
                w1\<lparr>collab_state := d,
                   trace := trace w1
                     @ [EvAllocate (kernarg_region entry)
                          (kernarg_segment_byte_size (code_desc entry))]\<rparr>)))"
  by (simp add: HSAKernel_bind_def andthen_def external_def ret_def Let_def
      split: prod.splits sum.splits)

lemma only_finalization_filters:
  "set evs \<subseteq> range (\<lambda>s. EvFinalization s cp ctx) \<Longrightarrow>
     filter is_dispatch evs = [] \<and> filter is_allocate evs = [] \<and> filter is_compile evs = []
     \<and> filter is_finalization evs = evs"
  by (induction evs) auto

lemma bind_Inr:
  assumes "HSAKernel_bind col self w = (Inr (ctx, cd, ka, reg), w')"
  shows "kernels w' = kernels w \<and> autojits w' = autojits w \<and> dicts w' = dicts w
     \<and> current_context w' = current_context w \<and> ctx = current_context w
     \<and> buf_size ka = kernarg_segment_byte_size cd
     \<and> filter is_allocate (trace w') = filter is_allocate (trace w) @ [EvAllocate reg (buf_size ka)]
     \<and> filter is_dispatch (trace w') = filter is_dispatch (trace w)"
proof -
  let ?cp = "cacheprog (kernels w ! self)"
  obtain r1 w1 where g: "CachedProgram_get col ?cp w = (r1, w1)" by fastforce
  obtain entry where r1: "r1 = Inr (ctx, entry)" and cd: "cd = code_desc entry"
    and reg: "reg = kernarg_region entry"
    using assms g by (auto simp: bind_unfold split: sum.splits prod.splits)
  obtain r d where a: "allocate col (kernarg_region entry)
      (kernarg_segment_byte_size (code_desc entry)) (collab_state w1) = (r, d)" by fastforce
  have w': "w' = w1\<lparr>collab_state := d,
       trace := trace w1 @ [EvAllocate reg (kernarg_segment_byte_size cd)]\<rparr>"
    and sz: "buf_size ka = kernarg_segment_byte_size cd"
    using assms g r1 a cd reg by (auto simp: bind_unfold split: sum.splits)
  obtain evs where evs: "trace w1 = trace w @ evs"
      "set evs \<subseteq> range (\<lambda>s. EvFinalization s ?cp (current_context w))"
    using get_frame[OF g] by auto
  have ctx: "ctx = current_context w"
  proof (cases "map_of (cp_cache (cacheprogs w ! ?cp)) (current_context w)")
    case None
    then show ?thesis using g r1 by (auto simp: get_miss split: prod.splits sum.splits)
  next
    case (Some e)
    then show ?thesis using g r1 by (auto simp: get_hit)
  qed
  show ?thesis
    using get_frame[OF g] only_finalization_filters[OF evs(2)] evs(1) ctx
    by (simp add: w' sz)
qed

text \<open>
  Claim C1. In an invoke whose \<^verbatim>\<open>bind\<close> and whose packing succeed, the cells are
  written starting at the end of the injected header, each after the padding the rule
  gives for its size at the running offset (\<open>spec_layout\<close>), and the loop ends with the
  running offset \<open>spec_layout_end\<close>. If that offset is not the size of the buffer, the
  invoke ends there with the \<^verbatim>\<open>AssertionError\<close> "Kernel argument size is invalid",
  in the world \<^verbatim>\<open>bind\<close> left, with no dispatch made; only if it is equal does the
  invoke go on to dispatch the buffer and free it.
\<close>

theorem invoke_checks_layout:
  assumes "HSAKernel_bind col self w = (Inr (ctx, cd, kernargs, reg), w1)"
      and "unpack_arguments (zip (argument_types (kernels w ! self)) args) [] = Inr cells"
      and "0 < sizeof_void_p col"
  shows "insert_kernel_arguments (sizeof_void_p col) kernargs (injectedargsize (kernels w ! self)) cells
           = Inr (spec_layout_end (sizeof_void_p col) (injectedargsize (kernels w ! self)) cells,
                  kernargs\<lparr>buf_writes :=
                     rev (spec_layout (sizeof_void_p col) (injectedargsize (kernels w ! self)) cells)
                       @ buf_writes kernargs\<rparr>)
     \<and> (spec_layout_end (sizeof_void_p col) (injectedargsize (kernels w ! self)) cells
           \<noteq> int (buf_size kernargs) \<longrightarrow>
          HSAKernel_call col self args w
            = (Inl (AssertionError ''Kernel argument size is invalid''), w1)
          \<and> filter is_dispatch (trace w1) = filter is_dispatch (trace w))
     \<and> (spec_layout_end (sizeof_void_p col) (injectedargsize (kernels w ! self)) cells
           = int (buf_size kernargs) \<longrightarrow>
          HSAKernel_call col self args w
            = launch col ctx cd
                (kernargs\<lparr>buf_writes :=
                     rev (spec_layout (sizeof_void_p col) (injectedargsize (kernels w ! self)) cells)
                       @ buf_writes kernargs\<rparr>)
                reg (local_size (kernels w ! self)) (global_size (kernels w ! self)) w1)"
proof -
  let ?psz = "sizeof_void_p col" and ?me = "kernels w ! self"
  have k: "kernels w1 = kernels w"
    and d: "filter is_dispatch (trace w1) = filter is_dispatch (trace w)"
    using bind_Inr[OF assms(1)] by simp_all
  have "cells_have_size ?psz []" by (simp add: cells_have_size_def)
  then have "cells_have_size ?psz cells"
    using unpack_arguments_sizes[OF assms(3) assms(2)] by simp
  then have i: "insert_kernel_arguments ?psz kernargs (injectedargsize ?me) cells
           = Inr (spec_layout_end ?psz (injectedargsize ?me) cells,
                  kernargs\<lparr>buf_writes := rev (spec_layout ?psz (injectedargsize ?me) cells)
                       @ buf_writes kernargs\<rparr>)"
    by (intro insert_kernel_arguments_spec) (simp add: cells_have_size_def)
  show ?thesis
    using assms(1,2) i k d
    by (simp add: HSAKernel_call_def andthen_def Let_def)
qed

lemma example_world_bind:
  "HSAKernel_bind (example_collaborators seg) 0 (example_world tys) =
     (Inr (example_context 0, \<lparr>code_id = 103, kernarg_segment_byte_size = seg\<rparr>,
           inject_dummy 8 \<lparr>buf_addr = 104, buf_size = seg, buf_writes = []\<rparr>, example_region),
      example_bound seg tys)"
proof -
  have c: "cacheprog (kernels (example_world tys) ! 0) = 0"
    by (simp add: example_world_def example_kernel_def)
  show ?thesis
    unfolding bind_unfold c example_world_get
    by (simp add: example_entry_def example_collaborators_def example_bound_def
        example_region_def example_world_def)
qed

text \<open>
  An instance of C1: a kernel with one Float64 argument lays out 48 + 8 = 56 bytes. When
  the device reports a segment of 64 bytes, the invoke ends with the assertion error
  before any dispatch; when it reports 56 bytes, the invoke returns and has dispatched the
  buffer with the cell at offset 48.
\<close>

theorem invoke_checks_layout_witness:
  "HSAKernel_bind (example_collaborators 64) 0 (example_world [Float64]) =
     (Inr (example_context 0, \<lparr>code_id = 103, kernarg_segment_byte_size = 64\<rparr>,
           inject_dummy 8 \<lparr>buf_addr = 104, buf_size = 64, buf_writes = []\<rparr>, example_region),
      example_bound 64 [Float64])
   \<and> unpack_arguments (zip (argument_types (kernels (example_world [Float64]) ! 0))
         [PyFloat (Finite 3 0)]) [] = Inr [Cell c_double (PyFloat (Finite 3 0))]
   \<and> 0 < sizeof_void_p (example_collaborators 64)
   \<and> spec_layout_end 8 48 [Cell c_double (PyFloat (Finite 3 0))] = 56
   \<and> HSAKernel_call (example_collaborators 64) 0 [PyFloat (Finite 3 0)] (example_world [Float64])
       = (Inl (AssertionError ''Kernel argument size is invalid''), example_bound 64 [Float64])
   \<and> filter is_dispatch (trace (example_bound 64 [Float64])) = []
   \<and> fst (HSAKernel_call (example_collaborators 56) 0 [PyFloat (Finite 3 0)]
             (example_world [Float64])) = Inr ()
   \<and> filter is_dispatch (trace (snd (HSAKernel_call (example_collaborators 56) 0
             [PyFloat (Finite 3 0)] (example_world [Float64]))))
       = [EvDispatch (example_context 0) \<lparr>code_id = 103, kernarg_segment_byte_size = 56\<rparr>
            ((inject_dummy 8 \<lparr>buf_addr = 104, buf_size = 56, buf_writes = []\<rparr>)
               \<lparr>buf_writes := (48, Cell c_double (PyFloat (Finite 3 0)))
                  # buf_writes (inject_dummy 8 \<lparr>buf_addr = 104, buf_size = 56, buf_writes = []\<rparr>)\<rparr>)
            (Some [1]) [1]]"
proof -
  let ?C = "example_collaborators 64" and ?W = "example_world [Float64]"
  let ?D = "example_collaborators 56"
  have u: "unpack_arguments (zip (argument_types (kernels ?W ! 0)) [PyFloat (Finite 3 0)]) []
      = Inr [Cell c_double (PyFloat (Finite 3 0))]"
    by (simp add: example_world_def example_kernel_def append_cell_def)
  have p: "0 < sizeof_void_p ?C" and q: "0 < sizeof_void_p ?D"
    by (simp_all add: example_collaborators_def)
  have f: "sizeof_void_p ?C = 8" "sizeof_void_p ?D = 8" "injectedargsize (kernels ?W ! 0) = 48"
      "trace ?W = []" "local_size (kernels ?W ! 0) = Some [1]" "global_size (kernels ?W ! 0) = [1]"
    by (simp_all add: example_collaborators_def example_world_def example_kernel_def)
  have e: "spec_layout_end 8 48 [Cell c_double (PyFloat (Finite 3 0))] = 56"
    "spec_layout 8 48 [Cell c_double (PyFloat (Finite 3 0))]
       = [(48, Cell c_double (PyFloat (Finite 3 0)))]"
    by (simp_all add: spec_padding_def)
  have mismatch: "HSAKernel_call ?C 0 [PyFloat (Finite 3 0)] ?W
       = (Inl (AssertionError ''Kernel argument size is invalid''), example_bound 64 [Float64])
     \<and> filter is_dispatch (trace (example_bound 64 [Float64])) = []"
    using invoke_checks_layout [OF example_world_bind u p] e
    by (simp add: f)
  have "HSAKernel_call ?D 0 [PyFloat (Finite 3 0)] ?W
       = launch ?D (example_context 0) \<lparr>code_id = 103, kernarg_segment_byte_size = 56\<rparr>
          ((inject_dummy 8 \<lparr>buf_addr = 104, buf_size = 56, buf_writes = []\<rparr>)
               \<lparr>buf_writes := (48, Cell c_double (PyFloat (Finite 3 0)))
                  # buf_writes (inject_dummy 8 \<lparr>buf_addr = 104, buf_size = 56, buf_writes = []\<rparr>)\<rparr>)
          example_region (Some [1]) [1] (example_bound 56 [Float64])"
    using invoke_checks_layout [OF example_world_bind u q] e
    by (simp add: f)
  then have match: "fst (HSAKernel_call ?D 0 [PyFloat (Finite 3 0)] ?W) = Inr ()
     \<and> filter is_dispatch (trace (snd (HSAKernel_call ?D 0 [PyFloat (Finite 3 0)] ?W)))
       = [EvDispatch (example_context 0) \<lparr>code_id = 103, kernarg_segment_byte_size = 56\<rparr>
            ((inject_dummy 8 \<lparr>buf_addr = 104, buf_size = 56, buf_writes = []\<rparr>)
               \<lparr>buf_writes := (48, Cell c_double (PyFloat (Finite 3 0)))
                  # buf_writes (inject_dummy 8 \<lparr>buf_addr = 104, buf_size = 56, buf_writes = []\<rparr>)\<rparr>)
            (Some [1]) [1]]"
    by (simp add: launch_def andthen_def external_def example_collaborators_def
        example_bound_def example_world_def all_steps_def)
  show ?thesis
    using example_world_bind[of 64 "[Float64]"] u p e(1) mismatch match by blast
qed




section \<open>Properties of clones\<close>

lemma family_Cons:
  "family h fam ((self, gs, ls, strm) # calls) =
     family (fst (configure h self gs ls strm))
       (if self \<in> set fam then length h # fam else fam) calls"
  by (simp add: case_prod_beta configure_clone)

declare family.simps(2) [simp del]

lemma configure_new_cacheprog:
  "cacheprog (fst (configure h self gs ls strm) ! length h) = cacheprog (h ! self)"
  by (simp add: configure_eq)

lemma family_shares:
  "\<forall>m\<in>set fam. m < length h \<and> cacheprog (h ! m) = cp \<Longrightarrow>
   \<forall>c\<in>set (family h fam calls).
      c < length (fst (configure_calls h calls))
      \<and> cacheprog (fst (configure_calls h calls) ! c) = cp"
proof (induction calls arbitrary: h fam)
  case Nil
  then show ?case by simp
next
  case (Cons x calls)
  obtain self gs ls strm where x: "x = (self, gs, ls, strm)" by (cases x) auto
  let ?h1 = "fst (configure h self gs ls strm)"
  let ?fam1 = "if self \<in> set fam then length h # fam else fam"
  have "\<forall>m\<in>set ?fam1. m < length ?h1 \<and> cacheprog (?h1 ! m) = cp"
    using Cons.prems
    by (auto simp: configure_length configure_nth_old configure_new_cacheprog less_Suc_eq)
  from Cons.IH[OF this] show ?case
    by (simp add: x family_Cons configure_calls_Cons)
qed

lemma configure_calls_append:
  "fst (configure_calls h (c1 @ c2)) = fst (configure_calls (fst (configure_calls h c1)) c2)"
proof (induction c1 arbitrary: h)
  case Nil
  then show ?case by simp
next
  case (Cons x c1)
  obtain self gs ls strm where x: "x = (self, gs, ls, strm)" by (cases x) auto
  show ?case using Cons.IH by (simp add: x configure_calls_Cons)
qed

lemma family_append:
  "family h fam (c1 @ c2) = family (fst (configure_calls h c1)) (family h fam c1) c2"
proof (induction c1 arbitrary: h fam)
  case Nil
  then show ?case by simp
next
  case (Cons x c1)
  obtain self gs ls strm where x: "x = (self, gs, ls, strm)" by (cases x) auto
  show ?case using Cons.IH by (simp add: x configure_calls_Cons family_Cons)
qed

lemma bind_frame:
  assumes "HSAKernel_bind col self w = (r, w')"
  shows "kernels w' = kernels w \<and> autojits w' = autojits w \<and> dicts w' = dicts w
     \<and> current_context w' = current_context w
     \<and> length (cacheprogs w') = length (cacheprogs w)"
proof -
  let ?cp = "cacheprog (kernels w ! self)"
  obtain r1 w1 where g: "CachedProgram_get col ?cp w = (r1, w1)" by fastforce
  show ?thesis
    using assms g get_frame[OF g]
    by (auto simp: bind_unfold split: sum.splits prod.splits)
qed

lemma bind_hit:
  assumes "map_of (cp_cache (cacheprogs w ! cacheprog (kernels w ! self))) (current_context w)
             = Some e"
      and "HSAKernel_bind col self w = (r, w')"
  shows "filter is_finalization (trace w') = filter is_finalization (trace w)
     \<and> cacheprogs w' = cacheprogs w
     \<and> (\<forall>ctx cd ka reg. r = Inr (ctx, cd, ka, reg) \<longrightarrow>
           ctx = current_context w \<and> cd = code_desc e \<and> reg = kernarg_region e)"
  using assms(2)
  by (auto simp: bind_unfold get_hit[OF assms(1)] split: sum.splits prod.splits)

lemma bind_Inr_cached:
  assumes "cacheprog (kernels w ! self) < length (cacheprogs w)"
      and "HSAKernel_bind col self w = (Inr (ctx, cd, ka, reg), w')"
  shows "\<exists>e. map_of (cp_cache (cacheprogs w' ! cacheprog (kernels w ! self))) ctx = Some e
            \<and> code_desc e = cd \<and> kernarg_region e = reg"
proof -
  let ?cp = "cacheprog (kernels w ! self)"
  obtain r1 w1 where g: "CachedProgram_get col ?cp w = (r1, w1)" by fastforce
  obtain entry where r1: "r1 = Inr (ctx, entry)" and cd: "cd = code_desc entry"
    and reg: "reg = kernarg_region entry" and c: "cacheprogs w' = cacheprogs w1"
    using assms(2) g by (auto simp: bind_unfold split: sum.splits prod.splits)
  have "map_of (cp_cache (cacheprogs w1 ! ?cp)) ctx = Some entry"
    using get_Inr[OF assms(1)] g r1 by simp
  then show ?thesis using cd reg c by auto
qed

text \<open>
  Claim C10. \<^verbatim>\<open>configure\<close> makes a shallow copy, so every clone of a kernel, however
  many \<^verbatim>\<open>configure\<close> calls away, refers to the cache object of the original, and no
  \<^verbatim>\<open>configure\<close> call makes a cache object or takes a finalization step. Hence, once a
  \<^verbatim>\<open>bind\<close> on one member of the family (the original or a clone) has succeeded for a
  context, a \<^verbatim>\<open>bind\<close> on any member, also one configured afterwards, takes no
  finalization step for that context: it uses the code descriptor and region of the first,
  and the number of cache objects is what it was.
\<close>

theorem clones_share_finalized_program:
  assumes "root < length (kernels w)"
      and "cacheprog (kernels w ! root) < length (cacheprogs w)"
      and "a \<in> set (family (kernels w) [root] calls1)"
      and "HSAKernel_bind col a (w\<lparr>kernels := fst (configure_calls (kernels w) calls1)\<rparr>)
             = (Inr (ctx, cd, ka, reg), w2)"
      and "b \<in> set (family (kernels w) [root] (calls1 @ calls2))"
      and "HSAKernel_bind col b (w2\<lparr>kernels := fst (configure_calls (kernels w2) calls2)\<rparr>)
             = (r, w4)"
  shows "cacheprog (kernels w2 ! a) = cacheprog (kernels w ! root)
     \<and> cacheprog (kernels w4 ! b) = cacheprog (kernels w ! root)
     \<and> length (cacheprogs w4) = length (cacheprogs w)
     \<and> filter is_finalization (trace w4) = filter is_finalization (trace w2)
     \<and> (\<forall>ctx' cd' ka' reg'. r = Inr (ctx', cd', ka', reg') \<longrightarrow>
           ctx' = ctx \<and> cd' = cd \<and> reg' = reg)"
proof -
  let ?cp = "cacheprog (kernels w ! root)"
  let ?h1 = "fst (configure_calls (kernels w) calls1)"
  let ?w1 = "w\<lparr>kernels := ?h1\<rparr>"
  let ?h3 = "fst (configure_calls (kernels w2) calls2)"
  let ?w3 = "w2\<lparr>kernels := ?h3\<rparr>"
  have root: "\<forall>m\<in>set [root]. m < length (kernels w) \<and> cacheprog (kernels w ! m) = ?cp"
    using assms(1) by simp
  have a: "cacheprog (?h1 ! a) = ?cp"
    using family_shares[OF root, of calls1] assms(3) by simp
  have f1: "kernels w2 = ?h1" "current_context w2 = ctx"
      "length (cacheprogs w2) = length (cacheprogs w)"
    using bind_Inr[OF assms(4)] bind_frame[OF assms(4)] by simp_all
  have h3: "?h3 = fst (configure_calls (kernels w) (calls1 @ calls2))"
    by (simp add: f1 configure_calls_append)
  have b: "cacheprog (?h3 ! b) = ?cp"
    using family_shares[OF root, of "calls1 @ calls2"] assms(5) by (simp add: h3)
  have cpa: "cacheprog (kernels ?w1 ! a) < length (cacheprogs ?w1)"
    using a assms(2) by simp
  obtain e where e: "map_of (cp_cache (cacheprogs w2 ! ?cp)) ctx = Some e"
      "code_desc e = cd" "kernarg_region e = reg"
    using bind_Inr_cached[OF cpa assms(4)] a by auto
  have hit: "map_of (cp_cache (cacheprogs ?w3 ! cacheprog (kernels ?w3 ! b)))
      (current_context ?w3) = Some e"
    using e(1) b f1 by simp
  have f4: "kernels w4 = ?h3" "length (cacheprogs w4) = length (cacheprogs w2)"
    using bind_frame[OF assms(6)] by simp_all
  show ?thesis
    using bind_hit[OF hit assms(6)] a b f1 f4 e by simp
qed

text \<open>
  An instance of C10: the kernel of the example world is bound, then reconfigured with
  \<^verbatim>\<open>configure(64, 8)\<close>, and the clone is bound: the trace still holds one
  finalization, that of the first \<^verbatim>\<open>bind\<close>, and there is still one cache object.
\<close>

theorem clones_share_finalized_program_witness:
  "(0::nat) < length (kernels (example_world [Float64]))
   \<and> cacheprog (kernels (example_world [Float64]) ! 0) < length (cacheprogs (example_world [Float64]))
   \<and> 0 \<in> set (family (kernels (example_world [Float64])) [0] [])
   \<and> HSAKernel_bind (example_collaborators 56) 0
        ((example_world [Float64])
           \<lparr>kernels := fst (configure_calls (kernels (example_world [Float64])) [])\<rparr>)
       = (Inr (example_context 0, \<lparr>code_id = 103, kernarg_segment_byte_size = 56\<rparr>,
               inject_dummy 8 \<lparr>buf_addr = 104, buf_size = 56, buf_writes = []\<rparr>, example_region),
          example_bound 56 [Float64])
   \<and> 1 \<in> set (family (kernels (example_world [Float64])) [0]
                  ([] @ [(0, Scalar 64, Some (Scalar 8), None)]))
   \<and> filter is_finalization (trace (snd (HSAKernel_bind (example_collaborators 56) 1
        ((example_bound 56 [Float64])
           \<lparr>kernels := fst (configure_calls (kernels (example_bound 56 [Float64]))
                              [(0, Scalar 64, Some (Scalar 8), None)])\<rparr>))))
       = all_steps 0 (example_context 0)
   \<and> length (cacheprogs (snd (HSAKernel_bind (example_collaborators 56) 1
        ((example_bound 56 [Float64])
           \<lparr>kernels := fst (configure_calls (kernels (example_bound 56 [Float64]))
                              [(0, Scalar 64, Some (Scalar 8), None)])\<rparr>)))) = 1"
proof -
  let ?C = "example_collaborators 56" and ?W = "example_world [Float64]"
  let ?calls2 = "[(0, Scalar 64, Some (Scalar 8), None)]"
  let ?W3 = "(example_bound 56 [Float64])
           \<lparr>kernels := fst (configure_calls (kernels (example_bound 56 [Float64])) ?calls2)\<rparr>"
  have l: "(0::nat) < length (kernels ?W)"
    and c: "cacheprog (kernels ?W ! 0) < length (cacheprogs ?W)"
    by (simp_all add: example_world_def example_kernel_def)
  have a: "0 \<in> set (family (kernels ?W) [0] [])" by simp
  have b1: "HSAKernel_bind ?C 0 (?W\<lparr>kernels := fst (configure_calls (kernels ?W) [])\<rparr>)
       = (Inr (example_context 0, \<lparr>code_id = 103, kernarg_segment_byte_size = 56\<rparr>,
               inject_dummy 8 \<lparr>buf_addr = 104, buf_size = 56, buf_writes = []\<rparr>, example_region),
          example_bound 56 [Float64])"
    by (simp add: example_world_bind)
  have b: "1 \<in> set (family (kernels ?W) [0] ([] @ ?calls2))"
    by (simp add: family_Cons example_world_def)
  have b2: "HSAKernel_bind ?C 1 ?W3 = (fst (HSAKernel_bind ?C 1 ?W3), snd (HSAKernel_bind ?C 1 ?W3))"
    by simp
  have t: "filter is_finalization (trace (example_bound 56 [Float64])) = all_steps 0 (example_context 0)"
    "length (cacheprogs ?W) = 1"
    by (simp_all add: example_bound_def example_world_def all_steps_def)
  show ?thesis
    using clones_share_finalized_program [OF l c a b1 b b2] l c a b1 b t
    by simp
qed

section \<open>Properties of the specialization table\<close>



lemma compile_kernel_unfold:
  "compile_kernel col f tys w =
     (case lower_kernel col f tys (collab_state w) of
        (Inl e, d) \<Rightarrow> (Inl e, w\<lparr>collab_state := d, trace := trace w @ [EvCompile f tys]\<rparr>)
      | (Inr cres, d) \<Rightarrow>
          (case hlc_finalize col (low_llvm_module cres) d of
             (Inl e, d') \<Rightarrow>
               (Inl e, w\<lparr>collab_state := d',
                          trace := trace w @ [EvCompile f tys, EvFinalizeHLC (low_llvm_module cres)]\<rparr>)
           | (Inr (asm, bin), d') \<Rightarrow>
               (Inr (length (kernels w)),
                w\<lparr>collab_state := d',
                  trace := trace w @ [EvCompile f tys, EvFinalizeHLC (low_llvm_module cres)],
                  cacheprogs := cacheprogs w
                    @ [\<lparr>cp_entry_name = low_kernel_name cres, cp_binary = bin, cp_cache = []\<rparr>],
                  kernels := kernels w
                    @ [\<lparr>global_size = [1], local_size = Some [1], stream = None,
                        llvm_module = low_llvm_module cres, assembly = asm, binary = bin,
                        entry_name = low_kernel_name cres,
                        argument_types = low_signature_args cres, argloc = [],
                        injectedargsize = int INJECTED_NARG * sizeof_void_p col,
                        cacheprog = length (cacheprogs w)\<rparr>]\<rparr>)))"
  by (simp add: compile_kernel_def HSAKernel_init_def andthen_def external_def Let_def
      split: prod.splits sum.splits)

lemma compile_kernel_frame:
  assumes "compile_kernel col f tys w = (r, w')"
  shows "dicts w' = dicts w \<and> autojits w' = autojits w
     \<and> filter is_compile (trace w') = filter is_compile (trace w) @ [EvCompile f tys]
     \<and> (\<forall>k. r = Inr k \<longrightarrow> k = length (kernels w) \<and> length (kernels w') = Suc (length (kernels w)))"
  using assms by (auto simp: compile_kernel_unfold split: prod.splits sum.splits)

lemma specialize_hit:
  "resolve_all col args = Inr tys \<Longrightarrow>
   map_of (dicts w ! definitions (autojits w ! self)) tys = Some k \<Longrightarrow>
     AutoJitHSAKernel_specialize col self args w = (Inr k, w)"
  by (simp add: AutoJitHSAKernel_specialize_def Let_def)

lemma specialize_miss:
  "resolve_all col args = Inr tys \<Longrightarrow>
   map_of (dicts w ! definitions (autojits w ! self)) tys = None \<Longrightarrow>
     AutoJitHSAKernel_specialize col self args w =
       (case compile_kernel col (py_func (autojits w ! self)) tys w of
          (Inl e, w1) \<Rightarrow> (Inl e, w1)
        | (Inr k, w1) \<Rightarrow>
            (Inr k, w1\<lparr>dicts := (dicts w1)[definitions (autojits w ! self) :=
                          dict_store tys k (dicts w1 ! definitions (autojits w ! self))]\<rparr>))"
  by (simp add: AutoJitHSAKernel_specialize_def Let_def andthen_def definitions_store_def ret_def
      split: prod.splits sum.splits)


lemma AutoJitHSAKernel_init_table_ok:
  "AutoJitHSAKernel_init func w = (Inr self, w') \<Longrightarrow>
     table_ok w' (definitions (autojits w' ! self)) \<and> dicts w' ! definitions (autojits w' ! self) = []"
  by (auto simp: AutoJitHSAKernel_init_def Let_def table_ok_def nth_append)

lemma specialize_keeps_entries:
  assumes "AutoJitHSAKernel_specialize col self args w = (r, w')"
      and "map_of (dicts w ! d) tys = Some k"
  shows "map_of (dicts w' ! d) tys = Some k"
proof (cases "resolve_all col args")
  case (Inl e)
  then show ?thesis using assms by (simp add: AutoJitHSAKernel_specialize_def)
next
  case (Inr argtypes)
  let ?d = "definitions (autojits w ! self)"
  show ?thesis
  proof (cases "map_of (dicts w ! ?d) argtypes")
    case (Some k0)
    then show ?thesis using assms by (simp add: specialize_hit[OF Inr])
  next
    case None
    obtain r1 w1 where c: "compile_kernel col (py_func (autojits w ! self)) argtypes w = (r1, w1)"
      by fastforce
    have f: "dicts w1 = dicts w" using compile_kernel_frame[OF c] by simp
    show ?thesis
    proof (cases r1)
      case (Inl e)
      then show ?thesis using assms c f by (simp add: specialize_miss[OF Inr None])
    next
      case (Inr k1)
      have w': "w' = w1\<lparr>dicts := (dicts w1)[?d := dict_store argtypes k1 (dicts w1 ! ?d)]\<rparr>"
        using assms(1) c Inr by (simp add: specialize_miss[OF \<open>resolve_all col args = Inr argtypes\<close> None])
      have ne: "d = ?d \<Longrightarrow> tys \<noteq> argtypes" using None assms(2) by auto
      show ?thesis
      proof (cases "d = ?d \<and> ?d < length (dicts w)")
        case True
        then show ?thesis using assms(2) ne by (simp add: w' f map_of_dict_store)
      next
        case False
        then have "(dicts w)[?d := dict_store argtypes k1 (dicts w ! ?d)] ! d = dicts w ! d"
          by (cases "d = ?d") (simp_all add: list_update_beyond)
        then show ?thesis using assms(2) by (simp add: w' f)
      qed
    qed
  qed
qed




end
